theory Spec2Isabelle
  imports Main "HOL-Library.AList"
begin

section \<open>Values of the object mapping layer\<close>

text \<open>
  The embedding follows \<^verbatim>\<open>src/api-service/__app__/onefuzzlib/orm.py\<close>.
  Python values that reach the mapping layer are collected in one datatype; floating
  point values are left out. A dictionary is an association list in insertion order,
  read with \<open>map_of\<close> and written with \<open>AList.update\<close> and \<open>AList.delete\<close>.
\<close>

datatype enum_value = EStr string | EInt int

datatype enum_member =
  EnumMember (enum_cls: string) (enum_name: string) (enum_val: enum_value)

datatype pyval =
    PNone
  | PBool bool
  | PInt int
  | PStr string
  | PUuid string
  | PContainer string
  | PRegion string
  | PPoolName string
  | PEnum enum_member
  | PDatetime string
  | PList "pyval list"
  | PDict "(string \<times> pyval) list"
  | PModel "(string \<times> pyval) list"

text \<open>
  \<open>PUuid\<close> carries the canonical text of a \<^verbatim>\<open>uuid.UUID\<close> (what \<^verbatim>\<open>str\<close> returns),
  \<open>PDatetime\<close> the ISO text of a \<^verbatim>\<open>datetime\<close>. \<open>PContainer\<close>, \<open>PRegion\<close> and
  \<open>PPoolName\<close> are the string types of \<^verbatim>\<open>onefuzztypes.primitives\<close>. \<open>PBool\<close> is
  a \<^verbatim>\<open>bool\<close>, which Python counts among the integers (\<^verbatim>\<open>isinstance(True, int)\<close>,
  \<^verbatim>\<open>True == 1\<close>). \<open>PModel\<close> is a nested model (an instance of a \<^verbatim>\<open>BaseModel\<close>
  subclass) with its fields.
\<close>

type_synonym pydict = "(string \<times> pyval) list"

type_synonym QueryFilter = "(string \<times> pyval list) list"

datatype exn =
    NotImplementedError
  | ValueError
  | TypeError
  | KeyError
  | AttributeError
  | JSONDecodeError
  | DuplicateKeyField
  | ValidationError
  | AzureConflictHttpError
  | AzureMissingResourceHttpError
  | AzureHttpError nat

text \<open>
  \<open>DuplicateKeyField\<close> is the plain \<^verbatim>\<open>Exception\<close> that \<^verbatim>\<open>load\<close> raises for a row
  that already holds a declared key field; \<open>AzureHttpError n\<close> is any other failure of
  the table store, with its HTTP status.
\<close>

definition QUEUE_DELAY_STOPPING_SECONDS :: nat where
  "QUEUE_DELAY_STOPPING_SECONDS = 30"

definition QUEUE_DELAY_CREATE_SECONDS :: nat where
  "QUEUE_DELAY_CREATE_SECONDS = 5"

subsection \<open>Text helpers\<close>

definition digit_char :: "nat \<Rightarrow> char" where
  "digit_char d = ''0123456789'' ! d"

fun str_nat :: "nat \<Rightarrow> string" where
  "str_nat n = (if n < 10 then [digit_char n] else str_nat (n div 10) @ [digit_char (n mod 10)])"

declare str_nat.simps [simp del]

definition str_int :: "int \<Rightarrow> string" where
  "str_int i = (if i < 0 then CHR ''-'' # str_nat (nat (- i)) else str_nat (nat i))"

fun join :: "string \<Rightarrow> string list \<Rightarrow> string" where
  "join sep [] = []"
| "join sep [x] = x"
| "join sep (x # y # ys) = x @ sep @ join sep (y # ys)"

definition quote :: "string \<Rightarrow> string" where
  "quote s = [CHR 0x27] @ s @ [CHR 0x27]"

subsection \<open>Truthiness and type tests\<close>

fun truthy :: "pyval \<Rightarrow> bool" where
  "truthy PNone = False"
| "truthy (PBool b) = b"
| "truthy (PInt i) = (i \<noteq> 0)"
| "truthy (PStr s) = (s \<noteq> [])"
| "truthy (PContainer s) = (s \<noteq> [])"
| "truthy (PRegion s) = (s \<noteq> [])"
| "truthy (PPoolName s) = (s \<noteq> [])"
| "truthy (PList xs) = (xs \<noteq> [])"
| "truthy (PDict kvs) = (kvs \<noteq> [])"
| "truthy (PUuid u) = True"
| "truthy (PEnum e) = True"
| "truthy (PDatetime d) = True"
| "truthy (PModel kvs) = True"

text \<open>\<^verbatim>\<open>isinstance(x, int)\<close>\<close>

fun is_int :: "pyval \<Rightarrow> bool" where
  "is_int (PInt i) = True"
| "is_int (PBool b) = True"
| "is_int v = False"

fun is_enum :: "pyval \<Rightarrow> bool" where
  "is_enum (PEnum e) = True"
| "is_enum v = False"

text \<open>\<^verbatim>\<open>isinstance(x, str)\<close>: the primitives are subclasses of \<^verbatim>\<open>str\<close>.\<close>

fun is_str :: "pyval \<Rightarrow> bool" where
  "is_str (PStr s) = True"
| "is_str (PContainer s) = True"
| "is_str (PRegion s) = True"
| "is_str (PPoolName s) = True"
| "is_str v = False"

text \<open>\<^verbatim>\<open>SAFE_STRINGS = (UUID, Container, Region, PoolName)\<close>\<close>

fun is_safe_string :: "pyval \<Rightarrow> bool" where
  "is_safe_string (PUuid u) = True"
| "is_safe_string (PContainer s) = True"
| "is_safe_string (PRegion s) = True"
| "is_safe_string (PPoolName s) = True"
| "is_safe_string v = False"

text \<open>\<^verbatim>\<open>"%s" % x\<close> on the values the compiler formats.\<close>

fun py_str :: "pyval \<Rightarrow> string" where
  "py_str (PUuid u) = u"
| "py_str (PContainer s) = s"
| "py_str (PRegion s) = s"
| "py_str (PPoolName s) = s"
| "py_str (PStr s) = s"
| "py_str (PInt i) = str_int i"
| "py_str (PBool b) = (if b then ''True'' else ''False'')"
| "py_str v = []"

text \<open>\<^verbatim>\<open>"%d" % x\<close> on an integer.\<close>

fun fmt_d :: "pyval \<Rightarrow> string" where
  "fmt_d (PInt i) = str_int i"
| "fmt_d (PBool b) = (if b then ''1'' else ''0'')"
| "fmt_d v = []"

subsection \<open>Equality\<close>

text \<open>
  Python's \<^verbatim>\<open>==\<close>, which \<^verbatim>\<open>in\<close> and \<^verbatim>\<open>not in\<close> use on the elements of a list. A
  string equals every string of the same text, whichever of the string types it has;
  a \<^verbatim>\<open>bool\<close> equals the integer of its value; lists are compared element by element,
  dictionaries entry by entry whatever their order, and a model as the dictionary of
  its fields.
\<close>

definition num_of :: "pyval \<Rightarrow> int option" where
  "num_of v =
     (case v of PInt i \<Rightarrow> Some i | PBool b \<Rightarrow> Some (if b then 1 else 0) | _ \<Rightarrow> None)"

definition text_of :: "pyval \<Rightarrow> string option" where
  "text_of v =
     (case v of
        PStr s \<Rightarrow> Some s
      | PContainer s \<Rightarrow> Some s
      | PRegion s \<Rightarrow> Some s
      | PPoolName s \<Rightarrow> Some s
      | _ \<Rightarrow> None)"

definition items_of :: "pyval \<Rightarrow> (string \<times> pyval) list option" where
  "items_of v = (case v of PDict kvs \<Rightarrow> Some kvs | PModel kvs \<Rightarrow> Some kvs | _ \<Rightarrow> None)"

fun py_eq :: "pyval \<Rightarrow> pyval \<Rightarrow> bool" where
  "py_eq PNone y = (y = PNone)"
| "py_eq (PBool b) y = (num_of y = Some (if b then 1 else 0))"
| "py_eq (PInt i) y = (num_of y = Some i)"
| "py_eq (PStr s) y = (text_of y = Some s)"
| "py_eq (PContainer s) y = (text_of y = Some s)"
| "py_eq (PRegion s) y = (text_of y = Some s)"
| "py_eq (PPoolName s) y = (text_of y = Some s)"
| "py_eq (PUuid u) y = (y = PUuid u)"
| "py_eq (PEnum e) y = (y = PEnum e)"
| "py_eq (PDatetime d) y = (y = PDatetime d)"
| "py_eq (PList xs) y = (case y of PList ys \<Rightarrow> list_all2 py_eq xs ys | _ \<Rightarrow> False)"
| "py_eq (PDict kvs) y =
     (case items_of y of
        None \<Rightarrow> False
      | Some other \<Rightarrow>
          length kvs = length other
          \<and> list_all (\<lambda>kv. case map_of other (fst kv) of
                              None \<Rightarrow> False
                            | Some w \<Rightarrow> py_eq (snd kv) w) kvs)"
| "py_eq (PModel kvs) y =
     (case items_of y of
        None \<Rightarrow> False
      | Some other \<Rightarrow>
          length kvs = length other
          \<and> list_all (\<lambda>kv. case map_of other (fst kv) of
                              None \<Rightarrow> False
                            | Some w \<Rightarrow> py_eq (snd kv) w) kvs)"

section \<open>Key resolver\<close>

fun resolve :: "pyval \<Rightarrow> exn + string" where
  "resolve (PStr s) = Inr s"
| "resolve (PContainer s) = Inr s"
| "resolve (PRegion s) = Inr s"
| "resolve (PPoolName s) = Inr s"
| "resolve (PUuid u) = Inr u"
| "resolve (PEnum e) = Inr (enum_name e)"
| "resolve (PInt i) = Inr (str_int i)"
| "resolve (PBool b) = Inr (py_str (PBool b))"
| "resolve v = Inl NotImplementedError"

section \<open>Record types\<close>

text \<open>
  Annotations of declared fields, as \<^verbatim>\<open>inspect.signature\<close> shows them to \<^verbatim>\<open>load\<close>:
  plain classes, a model class (\<^verbatim>\<open>BaseModel\<close> subclass), \<^verbatim>\<open>dict\<close> or a subclass of
  it, and the generic forms \<^verbatim>\<open>Dict[_, _]\<close>, \<^verbatim>\<open>List[_]\<close> and \<^verbatim>\<open>Union[...]\<close>.
\<close>

datatype annotation =
    TStr
  | TInt
  | TUuid
  | TDatetime
  | TNoneType
  | TEnum string
  | TModel string
  | TDictClass
  | TDict annotation annotation
  | TList annotation
  | TUnion "annotation list"

text \<open>
  A declared field: its name, its annotation and the inner type pydantic keeps in
  \<^verbatim>\<open>__fields__[name].type_\<close>.
\<close>

record field_decl =
  field_name :: string
  field_annotation :: annotation
  field_type :: annotation

text \<open>
  What a record type declares. \<open>key_fields\<close> is \<open>None\<close> for a type that keeps the base
  method, which raises \<^verbatim>\<open>NotImplementedError\<close>. The three filters are the results of
  \<^verbatim>\<open>save_exclude()\<close>, \<^verbatim>\<open>event_include()\<close> and \<^verbatim>\<open>telemetry_include()\<close>: \<open>None\<close> is
  Python's \<^verbatim>\<open>None\<close>, \<open>Some ks\<close> a mapping with the keys \<open>ks\<close>. \<open>parse_obj\<close> is pydantic's
  validation of the decoded row.
\<close>

record orm_cls =
  cls_name :: string
  key_fields :: "(string \<times> string option) option"
  cls_fields :: "field_decl list"
  save_exclude :: "string list option"
  event_include :: "string list option"
  telemetry_include :: "string list option"
  parse_obj :: "pydict \<Rightarrow> exn + pydict"

definition table_name :: "orm_cls \<Rightarrow> string" where
  "table_name cls = cls_name cls"

definition field_names :: "orm_cls \<Rightarrow> string list" where
  "field_names cls = map field_name (cls_fields cls)"

section \<open>Query filter compiler\<close>

text \<open>The inner loops of \<^verbatim>\<open>build_filters\<close> over one value list.\<close>

fun int_parts :: "string \<Rightarrow> pyval list \<Rightarrow> exn + string list" where
  "int_parts fname [] = Inr []"
| "int_parts fname (x # xs) =
     (if is_int x then
        (case int_parts fname xs of
           Inl e \<Rightarrow> Inl e
         | Inr ps \<Rightarrow> Inr ((fname @ '' eq '' @ fmt_d x) # ps))
      else Inl TypeError)"

fun enum_parts :: "string \<Rightarrow> pyval list \<Rightarrow> exn + string list" where
  "enum_parts fname [] = Inr []"
| "enum_parts fname (PEnum e # xs) =
     (case enum_parts fname xs of
        Inl e' \<Rightarrow> Inl e'
      | Inr ps \<Rightarrow> Inr ((fname @ '' eq '' @ quote (enum_name e)) # ps))"
| "enum_parts fname (x # xs) = Inl TypeError"

definition safe_parts :: "string \<Rightarrow> pyval list \<Rightarrow> string list" where
  "safe_parts fname values = map (\<lambda>x. fname @ '' eq '' @ quote (py_str x)) values"

definition store_field_name :: "string \<Rightarrow> string option \<Rightarrow> string \<Rightarrow> string" where
  "store_field_name partition_key_field row_key_field field =
     (if field = partition_key_field then ''PartitionKey''
      else if Some field = row_key_field then ''RowKey''
      else field)"

text \<open>
  The classification of one value list: \<open>Inr (Some parts)\<close> are server clauses,
  \<open>Inr None\<close> leaves \<^verbatim>\<open>parts\<close> at \<^verbatim>\<open>None\<close> (the field goes to the post filters).
\<close>

definition field_parts :: "string \<Rightarrow> pyval list \<Rightarrow> exn + string list option" where
  "field_parts fname values =
     (if is_int (hd values) then
        (case int_parts fname values of Inl e \<Rightarrow> Inl e | Inr ps \<Rightarrow> Inr (Some ps))
      else if is_enum (hd values) then
        (case enum_parts fname values of Inl e \<Rightarrow> Inl e | Inr ps \<Rightarrow> Inr (Some ps))
      else if list_all is_safe_string values then Inr (Some (safe_parts fname values))
      else Inr None)"

definition add_parts :: "string list option \<Rightarrow> string list \<Rightarrow> string list" where
  "add_parts parts search_filter_parts =
     (case parts of
        None \<Rightarrow> search_filter_parts
      | Some ps \<Rightarrow>
          if ps = [] then search_filter_parts
          else if length ps = 1 then search_filter_parts @ [hd ps]
          else search_filter_parts @ [''('' @ join '' or '' ps @ '')''])"

fun build_loop ::
  "orm_cls \<Rightarrow> string \<Rightarrow> string option \<Rightarrow> QueryFilter \<Rightarrow> string list \<Rightarrow> QueryFilter
     \<Rightarrow> exn + (string list \<times> QueryFilter)" where
  "build_loop cls pkf rkf [] search_filter_parts post_filters =
     Inr (search_filter_parts, post_filters)"
| "build_loop cls pkf rkf ((field, values) # rest) search_filter_parts post_filters =
     (if field \<notin> set (field_names cls) then Inl ValueError
      else if values = [] then build_loop cls pkf rkf rest search_filter_parts post_filters
      else
        (case field_parts (store_field_name pkf rkf field) values of
           Inl e \<Rightarrow> Inl e
         | Inr None \<Rightarrow>
             build_loop cls pkf rkf rest search_filter_parts
               (AList.update (store_field_name pkf rkf field) values post_filters)
         | Inr (Some ps) \<Rightarrow>
             build_loop cls pkf rkf rest (add_parts (Some ps) search_filter_parts)
               post_filters))"

definition build_filters ::
  "orm_cls \<Rightarrow> QueryFilter option \<Rightarrow> exn + (string option \<times> QueryFilter)" where
  "build_filters cls query_args =
     (case query_args of
        None \<Rightarrow> Inr (None, [])
      | Some q \<Rightarrow>
          if q = [] then Inr (None, [])
          else
            (case key_fields cls of
               None \<Rightarrow> Inl NotImplementedError
             | Some (partition_key_field, row_key_field) \<Rightarrow>
                 (case build_loop cls partition_key_field row_key_field q [] [] of
                    Inl e \<Rightarrow> Inl e
                  | Inr (search_filter_parts, post_filters) \<Rightarrow>
                      if search_filter_parts \<noteq> []
                      then Inr (Some (join '' and '' search_filter_parts), post_filters)
                      else Inr (None, post_filters))))"

text \<open>
  \<^verbatim>\<open>post_filter\<close>: the loop runs over the entries of the filter dictionary; the row is
  read with \<^verbatim>\<open>field in value\<close> and \<^verbatim>\<open>value[field]\<close>, and \<^verbatim>\<open>not in\<close> looks for
  an element of the list that equals the value.
\<close>

fun post_filter_loop :: "pydict \<Rightarrow> QueryFilter \<Rightarrow> bool" where
  "post_filter_loop value [] = True"
| "post_filter_loop value ((field, allowed) # rest) =
     (case map_of value field of
        None \<Rightarrow> False
      | Some v \<Rightarrow>
          if \<not> list_ex (\<lambda>a. py_eq a v) allowed then False
          else post_filter_loop value rest)"

definition post_filter :: "pydict \<Rightarrow> QueryFilter option \<Rightarrow> bool" where
  "post_filter value filters =
     (case filters of
        None \<Rightarrow> True
      | Some fs \<Rightarrow> if fs = [] then True else post_filter_loop value fs)"

section \<open>Collaborators of the record engine\<close>

text \<open>
  The enumerations of \<^verbatim>\<open>onefuzztypes.enums\<close> and the \<^verbatim>\<open>json\<close> module are not part
  of this file of the repository; the record engine takes them as parameters.
  \<open>telemetry_events\<close> and \<open>update_types\<close> are the member names of \<^verbatim>\<open>TelemetryEvent\<close>
  and \<^verbatim>\<open>UpdateType\<close>; \<open>needs_work c\<close> is what the \<^verbatim>\<open>needs_work()\<close> method of the
  enumeration class \<open>c\<close> returns, \<open>None\<close> when the class has no such method;
  \<open>json_loads\<close> is \<open>None\<close> where \<^verbatim>\<open>json.loads\<close> raises.
\<close>

record env =
  telemetry_events :: "string list"
  update_types :: "string list"
  needs_work :: "string \<Rightarrow> enum_member list option"
  json_dumps :: "pyval \<Rightarrow> string"
  json_loads :: "string \<Rightarrow> pyval option"

text \<open>
  The table client returned by \<^verbatim>\<open>get_client\<close>, over any store state \<open>'s\<close>: each
  call yields the raised exception or the result, and the next store state.
\<close>

record 's client =
  get_entity :: "string \<Rightarrow> string \<Rightarrow> string \<Rightarrow> 's \<Rightarrow> (exn + pydict) \<times> 's"
  insert_entity :: "string \<Rightarrow> pydict \<Rightarrow> 's \<Rightarrow> (exn + string) \<times> 's"
  replace_entity :: "string \<Rightarrow> pydict \<Rightarrow> pyval \<Rightarrow> 's \<Rightarrow> (exn + string) \<times> 's"
  insert_or_replace_entity :: "string \<Rightarrow> pydict \<Rightarrow> 's \<Rightarrow> (exn + string) \<times> 's"
  delete_entity :: "string \<Rightarrow> string \<Rightarrow> string \<Rightarrow> 's \<Rightarrow> (exn + unit) \<times> 's"

text \<open>
  Every call that leaves the engine is recorded, in order: the calls of the table
  client, \<^verbatim>\<open>queue_update\<close> (update type, partition key, row key, method,
  visibility timeout), \<^verbatim>\<open>track_event_filtered\<close> and \<^verbatim>\<open>add_event\<close>.
\<close>

datatype effect =
    GetEntity string string string
  | InsertEntity string pydict
  | ReplaceEntity string pydict pyval
  | InsertOrReplaceEntity string pydict
  | DeleteEntity string string string
  | QueueUpdate string string string "string option" "nat option"
  | TrackEvent string pydict
  | AddEvent string pydict

record 's world =
  store :: 's
  trace :: "effect list"

datatype 'a outcome = Raised exn | Returned 'a

datatype ErrorCode = UNABLE_TO_CREATE

datatype Error = Error (code: ErrorCode) (errors: "string list")

definition emit :: "effect \<Rightarrow> 's world \<Rightarrow> 's world" where
  "emit e w = w\<lparr>trace := trace w @ [e]\<rparr>"

definition call_store :: "effect \<Rightarrow> ('s \<Rightarrow> 'r \<times> 's) \<Rightarrow> 's world \<Rightarrow> 'r \<times> 's world" where
  "call_store e f w = (case f (store w) of (r, s') \<Rightarrow> (r, \<lparr>store = s', trace = trace w @ [e]\<rparr>))"

section \<open>Record engine\<close>

text \<open>
  A record instance is its attribute dictionary, \<^verbatim>\<open>etag\<close> and \<^verbatim>\<open>Timestamp\<close> included.
  \<open>jsonify\<close> is the passage through \<^verbatim>\<open>self.json()\<close> and \<^verbatim>\<open>json.loads\<close> in
  \<^verbatim>\<open>ModelMixin.raw\<close>: wrapped types are resolved, an enumeration member to its value,
  and a nested model becomes the dictionary of its fields that are not \<^verbatim>\<open>None\<close>
  (\<^verbatim>\<open>exclude_none\<close> goes down into nested models, not into dictionaries).
\<close>

fun jsonify :: "pyval \<Rightarrow> pyval" where
  "jsonify PNone = PNone"
| "jsonify (PBool b) = PBool b"
| "jsonify (PInt i) = PInt i"
| "jsonify (PStr s) = PStr s"
| "jsonify (PUuid u) = PStr u"
| "jsonify (PContainer s) = PStr s"
| "jsonify (PRegion s) = PStr s"
| "jsonify (PPoolName s) = PStr s"
| "jsonify (PEnum e) = (case enum_val e of EStr s \<Rightarrow> PStr s | EInt i \<Rightarrow> PInt i)"
| "jsonify (PDatetime d) = PStr d"
| "jsonify (PList xs) = PList (map jsonify xs)"
| "jsonify (PDict kvs) = PDict (map (\<lambda>kv. (fst kv, jsonify (snd kv))) kvs)"
| "jsonify (PModel kvs) =
     PDict (map (\<lambda>kv. (fst kv, jsonify (snd kv))) (filter (\<lambda>kv. snd kv \<noteq> PNone) kvs))"

text \<open>
  \<^verbatim>\<open>raw(exclude_none=True, exclude=..., include=...)\<close>, the only form the engine calls.
  The mappings given for \<^verbatim>\<open>exclude\<close> and \<^verbatim>\<open>include\<close> are carried by their keys: they
  name whole fields of the record (every key is given the value \<^verbatim>\<open>...\<close>).
\<close>

definition raw :: "pydict \<Rightarrow> string list option \<Rightarrow> string list option \<Rightarrow> pydict" where
  "raw self exclude include =
     map (\<lambda>kv. (fst kv, jsonify (snd kv)))
       (filter (\<lambda>kv. snd kv \<noteq> PNone
            \<and> (case exclude of None \<Rightarrow> True | Some ex \<Rightarrow> fst kv \<notin> set ex)
            \<and> (case include of None \<Rightarrow> True | Some inc \<Rightarrow> fst kv \<in> set inc)) self)"

definition event :: "orm_cls \<Rightarrow> pydict \<Rightarrow> pydict" where
  "event cls self = raw self None (event_include cls)"

definition telemetry :: "orm_cls \<Rightarrow> pydict \<Rightarrow> pydict" where
  "telemetry cls self = raw self None (telemetry_include cls)"

text \<open>\<^verbatim>\<open>if row_key_field:\<close> and \<^verbatim>\<open>row_key_field or partition_key_field\<close>\<close>

definition field_given :: "string option \<Rightarrow> bool" where
  "field_given row_key_field = (case row_key_field of None \<Rightarrow> False | Some r \<Rightarrow> r \<noteq> [])"

definition or_field :: "string option \<Rightarrow> string \<Rightarrow> string" where
  "or_field row_key_field partition_key_field =
     (if field_given row_key_field then the row_key_field else partition_key_field)"

definition get_keys :: "orm_cls \<Rightarrow> pydict \<Rightarrow> exn + (pyval \<times> pyval)" where
  "get_keys cls self =
     (case key_fields cls of
        None \<Rightarrow> Inl NotImplementedError
      | Some (partition_key_field, row_key_field) \<Rightarrow>
          (case map_of self partition_key_field of
             None \<Rightarrow> Inl AttributeError
           | Some partition_key \<Rightarrow>
               if field_given row_key_field then
                 (case map_of self (the row_key_field) of
                    None \<Rightarrow> Inl AttributeError
                  | Some row_key \<Rightarrow> Inr (partition_key, row_key))
               else Inr (partition_key, partition_key)))"

text \<open>
  \<^verbatim>\<open>queue\<close>; a method is given by its \<^verbatim>\<open>__name__\<close>.
\<close>

definition queue ::
  "env \<Rightarrow> orm_cls \<Rightarrow> pydict \<Rightarrow> string option \<Rightarrow> nat option \<Rightarrow> 's world
     \<Rightarrow> unit outcome \<times> 's world" where
  "queue env cls self method visibility_timeout w =
     (if ''state'' \<notin> set (map fst self) then (Raised NotImplementedError, w)
      else if cls_name cls \<notin> set (update_types env) then (Raised NotImplementedError, w)
      else
        (case get_keys cls self of
           Inl e \<Rightarrow> (Raised e, w)
         | Inr (partition_key, row_key) \<Rightarrow>
             (case resolve partition_key of
                Inl e \<Rightarrow> (Raised e, w)
              | Inr pk \<Rightarrow>
                  (case resolve row_key of
                     Inl e \<Rightarrow> (Raised e, w)
                   | Inr rk \<Rightarrow>
                       (Returned (),
                        emit (QueueUpdate (cls_name cls) pk rk method visibility_timeout) w)))))"

text \<open>
  \<^verbatim>\<open>getattr(state, "needs_work", None)\<close> and \<^verbatim>\<open>state.name\<close>: only a member of an
  enumeration has them.
\<close>

definition state_needs_work :: "env \<Rightarrow> pyval \<Rightarrow> pyval list option" where
  "state_needs_work env state =
     (case state of
        PEnum e \<Rightarrow> map_option (map PEnum) (needs_work env (enum_cls e))
      | _ \<Rightarrow> None)"

definition state_name :: "pyval \<Rightarrow> string" where
  "state_name state = (case state of PEnum e \<Rightarrow> enum_name e | _ \<Rightarrow> [])"

definition queue_as_needed :: "env \<Rightarrow> orm_cls \<Rightarrow> pydict \<Rightarrow> 's world \<Rightarrow> unit outcome \<times> 's world" where
  "queue_as_needed env cls self w =
     (case map_of self ''state'' of
        None \<Rightarrow> (Returned (), w)
      | Some state \<Rightarrow>
          if state = PNone then (Returned (), w)
          else
            (case state_needs_work env state of
               None \<Rightarrow> (Returned (), w)
             | Some work \<Rightarrow>
                 if state \<notin> set work then (Returned (), w)
                 else if state_name state \<in> set [''stopping'', ''stop'', ''shutdown'']
                 then queue env cls self None (Some QUEUE_DELAY_STOPPING_SECONDS) w
                 else queue env cls self None (Some QUEUE_DELAY_CREATE_SECONDS) w))"

definition event_as_needed :: "orm_cls \<Rightarrow> pydict \<Rightarrow> 's world \<Rightarrow> 's world" where
  "event_as_needed cls self w =
     (let data = event cls self
      in if data = [] then w else emit (AddEvent (table_name cls) data) w)"

text \<open>Lines 310 to 313 of \<^verbatim>\<open>save\<close>: the telemetry projection.\<close>

definition telemetry_as_needed :: "env \<Rightarrow> orm_cls \<Rightarrow> pydict \<Rightarrow> 's world \<Rightarrow> 's world" where
  "telemetry_as_needed env cls self w =
     (if table_name cls \<in> set (telemetry_events env) then
        (let telem = telemetry cls self
         in if telem \<noteq> [] then emit (TrackEvent (table_name cls) telem) w else w)
      else w)"

subsection \<open>save\<close>

text \<open>The first loop of \<^verbatim>\<open>save\<close>: every value that is not a string or an integer
  is replaced by its JSON text.\<close>

definition blob_encode :: "env \<Rightarrow> pydict \<Rightarrow> pydict" where
  "blob_encode env r =
     map (\<lambda>kv. (fst kv,
            if is_str (snd kv) \<or> is_int (snd kv) then snd kv
            else PStr (json_dumps env (snd kv)))) r"

text \<open>The second loop: a declared field of type \<^verbatim>\<open>datetime\<close> that is in the row
  gets the attribute itself.\<close>

fun restore_datetimes :: "field_decl list \<Rightarrow> pydict \<Rightarrow> pydict \<Rightarrow> exn + pydict" where
  "restore_datetimes [] self r = Inr r"
| "restore_datetimes (f # fs) self r =
     (if field_name f \<notin> set (map fst r) then restore_datetimes fs self r
      else if field_type f = TDatetime then
        (case map_of self (field_name f) of
           None \<Rightarrow> Inl AttributeError
         | Some v \<Rightarrow> restore_datetimes fs self (AList.update (field_name f) v r))
      else restore_datetimes fs self r)"

text \<open>
  The row that \<^verbatim>\<open>save\<close> hands to the table client (lines 268 to 295): the store keys
  are derived with \<open>resolve\<close>, the declared key fields and \<^verbatim>\<open>Timestamp\<close> are deleted.
\<close>

definition save_row :: "env \<Rightarrow> orm_cls \<Rightarrow> pydict \<Rightarrow> exn + pydict" where
  "save_row env cls self =
     (case restore_datetimes (cls_fields cls) self
             (blob_encode env (raw self (save_exclude cls) None)) of
        Inl e \<Rightarrow> Inl e
      | Inr r1 \<Rightarrow>
          (case key_fields cls of
             None \<Rightarrow> Inl NotImplementedError
           | Some (partition_key_field, row_key_field) \<Rightarrow>
               (case map_of r1 partition_key_field of
                  None \<Rightarrow> Inl KeyError
                | Some pv \<Rightarrow>
                    (case resolve pv of
                       Inl e \<Rightarrow> Inl e
                     | Inr pk \<Rightarrow>
                         (let r2 = AList.update ''PartitionKey'' (PStr pk) r1
                          in case map_of r2 (or_field row_key_field partition_key_field) of
                               None \<Rightarrow> Inl KeyError
                             | Some rv \<Rightarrow>
                                 (case resolve rv of
                                    Inl e \<Rightarrow> Inl e
                                  | Inr rk \<Rightarrow>
                                      (let r3 = AList.update ''RowKey'' (PStr rk) r2;
                                           r4 = AList.delete partition_key_field r3;
                                           r5 = (case row_key_field of
                                                   None \<Rightarrow> r4
                                                 | Some f \<Rightarrow> AList.delete f r4)
                                       in Inr (AList.delete ''Timestamp'' r5))))))))"

text \<open>What follows the write: the dispatcher, the telemetry and the dashboard event.\<close>

definition after_write ::
  "env \<Rightarrow> orm_cls \<Rightarrow> pydict \<Rightarrow> 's world \<Rightarrow> Error option outcome \<times> pydict \<times> 's world" where
  "after_write env cls self w =
     (case queue_as_needed env cls self w of
        (Raised e, w1) \<Rightarrow> (Raised e, self, w1)
      | (Returned u, w1) \<Rightarrow>
          (Returned None, self,
           event_as_needed cls self (telemetry_as_needed env cls self w1)))"

definition set_etag :: "pydict \<Rightarrow> string \<Rightarrow> pydict" where
  "set_etag self t = AList.update ''etag'' (PStr t) self"

definition getattr :: "pydict \<Rightarrow> string \<Rightarrow> pyval" where
  "getattr self f = (case map_of self f of None \<Rightarrow> PNone | Some v \<Rightarrow> v)"

definition save ::
  "env \<Rightarrow> 's client \<Rightarrow> orm_cls \<Rightarrow> pydict \<Rightarrow> bool \<Rightarrow> bool \<Rightarrow> 's world
     \<Rightarrow> Error option outcome \<times> pydict \<times> 's world" where
  "save env cl cls self new require_etag w =
     (case save_row env cls self of
        Inl e \<Rightarrow> (Raised e, self, w)
      | Inr r \<Rightarrow>
          if new then
            (case call_store (InsertEntity (table_name cls) r)
                    (insert_entity cl (table_name cls) r) w of
               (Inl e, w1) \<Rightarrow>
                 if e = AzureConflictHttpError
                 then (Returned (Some (Error UNABLE_TO_CREATE [''row exists''])), self, w1)
                 else (Raised e, self, w1)
             | (Inr t, w1) \<Rightarrow> after_write env cls (set_etag self t) w1)
          else if truthy (getattr self ''etag'') \<and> require_etag then
            (case call_store (ReplaceEntity (table_name cls) r (getattr self ''etag''))
                    (replace_entity cl (table_name cls) r (getattr self ''etag'')) w of
               (Inl e, w1) \<Rightarrow> (Raised e, self, w1)
             | (Inr t, w1) \<Rightarrow> after_write env cls (set_etag self t) w1)
          else
            (case call_store (InsertOrReplaceEntity (table_name cls) r)
                    (insert_or_replace_entity cl (table_name cls) r) w of
               (Inl e, w1) \<Rightarrow> (Raised e, self, w1)
             | (Inr t, w1) \<Rightarrow> after_write env cls (set_etag self t) w1))"

subsection \<open>delete\<close>

definition delete :: "'s client \<Rightarrow> orm_cls \<Rightarrow> pydict \<Rightarrow> 's world \<Rightarrow> unit outcome \<times> 's world" where
  "delete cl cls self w =
     (let w1 = event_as_needed cls self w
      in case get_keys cls self of
           Inl e \<Rightarrow> (Raised e, w1)
         | Inr (partition_key, row_key) \<Rightarrow>
             (case resolve partition_key of
                Inl e \<Rightarrow> (Raised e, w1)
              | Inr pk \<Rightarrow>
                  (case resolve row_key of
                     Inl e \<Rightarrow> (Raised e, w1)
                   | Inr rk \<Rightarrow>
                       (case call_store (DeleteEntity (table_name cls) pk rk)
                               (delete_entity cl (table_name cls) pk rk) w1 of
                          (Inl e, w2) \<Rightarrow>
                            if e = AzureMissingResourceHttpError then (Returned (), w2)
                            else (Raised e, w2)
                        | (Inr u, w2) \<Rightarrow> (Returned (), w2)))))"

subsection \<open>load and get\<close>

text \<open>
  The three tests of \<^verbatim>\<open>load\<close> on a field's annotation: a class that is a model or a
  \<^verbatim>\<open>dict\<close>, a \<^verbatim>\<open>Union\<close> with a model class among its arguments, and an annotation whose
  \<^verbatim>\<open>__origin__\<close> is \<^verbatim>\<open>dict\<close>.
\<close>

fun is_basemodel_class :: "annotation \<Rightarrow> bool" where
  "is_basemodel_class (TModel m) = True"
| "is_basemodel_class a = False"

fun needs_decode :: "annotation \<Rightarrow> bool" where
  "needs_decode (TModel m) = True"
| "needs_decode TDictClass = True"
| "needs_decode (TUnion args) = list_ex is_basemodel_class args"
| "needs_decode (TDict k v) = True"
| "needs_decode a = False"

fun decode_fields :: "env \<Rightarrow> field_decl list \<Rightarrow> pydict \<Rightarrow> exn + pydict" where
  "decode_fields env [] data = Inr data"
| "decode_fields env (f # fs) data =
     (case map_of data (field_name f) of
        None \<Rightarrow> decode_fields env fs data
      | Some v \<Rightarrow>
          if needs_decode (field_annotation f) then
            (if is_str v then
               (case json_loads env (py_str v) of
                  None \<Rightarrow> Inl JSONDecodeError
                | Some d \<Rightarrow> decode_fields env fs (AList.update (field_name f) d data))
             else Inl TypeError)
          else decode_fields env fs data)"

text \<open>The dictionary that \<^verbatim>\<open>load\<close> passes to \<^verbatim>\<open>parse_obj\<close>.\<close>

definition load_data :: "env \<Rightarrow> orm_cls \<Rightarrow> pydict \<Rightarrow> exn + pydict" where
  "load_data env cls data =
     (case key_fields cls of
        None \<Rightarrow> Inl NotImplementedError
      | Some (partition_key_field, row_key_field) \<Rightarrow>
          if partition_key_field \<in> set (map fst data) then Inl DuplicateKeyField
          else if (case row_key_field of None \<Rightarrow> False | Some f \<Rightarrow> f \<in> set (map fst data))
          then Inl DuplicateKeyField
          else
            (case map_of data ''PartitionKey'' of
               None \<Rightarrow> Inl KeyError
             | Some pk \<Rightarrow>
                 (let d1 = AList.update partition_key_field pk data
                  in case (case row_key_field of
                             None \<Rightarrow> Inr d1
                           | Some f \<Rightarrow>
                               (case map_of d1 ''RowKey'' of
                                  None \<Rightarrow> Inl KeyError
                                | Some rk \<Rightarrow> Inr (AList.update f rk d1))) of
                       Inl e \<Rightarrow> Inl e
                     | Inr d2 \<Rightarrow>
                         if ''PartitionKey'' \<notin> set (map fst d2) then Inl KeyError
                         else if ''RowKey'' \<notin> set (map fst (AList.delete ''PartitionKey'' d2))
                         then Inl KeyError
                         else decode_fields env (cls_fields cls)
                                (AList.delete ''RowKey'' (AList.delete ''PartitionKey'' d2)))))"

definition load :: "env \<Rightarrow> orm_cls \<Rightarrow> pydict \<Rightarrow> exn + pydict" where
  "load env cls data =
     (case load_data env cls data of
        Inl e \<Rightarrow> Inl e
      | Inr d \<Rightarrow> parse_obj cls d)"

text \<open>\<^verbatim>\<open>get\<close>; the default \<^verbatim>\<open>RowKey=None\<close> is \<open>PNone\<close>.\<close>

definition get ::
  "env \<Rightarrow> 's client \<Rightarrow> orm_cls \<Rightarrow> pyval \<Rightarrow> pyval \<Rightarrow> 's world
     \<Rightarrow> pydict option outcome \<times> 's world" where
  "get env cl cls PartitionKey RowKey w =
     (case resolve PartitionKey of
        Inl e \<Rightarrow> (Raised e, w)
      | Inr partition_key \<Rightarrow>
          (case (if truthy RowKey then resolve RowKey else Inr partition_key) of
             Inl e \<Rightarrow> (Raised e, w)
           | Inr row_key \<Rightarrow>
               (case call_store (GetEntity (table_name cls) partition_key row_key)
                       (get_entity cl (table_name cls) partition_key row_key) w of
                  (Inl e, w1) \<Rightarrow>
                    if e = AzureMissingResourceHttpError then (Returned None, w1)
                    else (Raised e, w1)
                | (Inr r, w1) \<Rightarrow>
                    (case load env cls r of
                       Inl e \<Rightarrow> (Raised e, w1)
                     | Inr obj \<Rightarrow> (Returned (Some obj), w1)))))"

section \<open>Observing the trace\<close>

fun is_add_event :: "effect \<Rightarrow> bool" where
  "is_add_event (AddEvent t d) = True"
| "is_add_event e = False"

fun is_track_event :: "effect \<Rightarrow> bool" where
  "is_track_event (TrackEvent t d) = True"
| "is_track_event e = False"

fun is_queue_update :: "effect \<Rightarrow> bool" where
  "is_queue_update (QueueUpdate u p r m d) = True"
| "is_queue_update e = False"

section \<open>A table store and example record types\<close>

text \<open>
  Modelled from the spec: the table client adapter (section 6), whose code (the Azure
  table service behind \<^verbatim>\<open>get_client\<close>) is not in this repository's sources. Rows are
  kept under (table, partition key, row key) with their concurrency token; insert fails
  with a conflict on an existing key, replace needs the row and a matching token (HTTP
  status 412 otherwise), delete and get fail with not-found on an absent row. A fresh
  token is drawn from a counter.
\<close>

record table_store =
  rows :: "((string \<times> string \<times> string) \<times> (string \<times> pydict)) list"
  clock :: nat

definition row_id :: "string \<Rightarrow> pydict \<Rightarrow> string \<times> string \<times> string" where
  "row_id t r = (t, py_str (getattr r ''PartitionKey''), py_str (getattr r ''RowKey''))"

definition fresh_etag :: "table_store \<Rightarrow> string" where
  "fresh_etag s = ''W/'' @ str_nat (clock s)"

definition put_row :: "string \<Rightarrow> pydict \<Rightarrow> table_store \<Rightarrow> (exn + string) \<times> table_store" where
  "put_row t r s =
     (Inr (fresh_etag s),
      \<lparr>rows = AList.update (row_id t r) (fresh_etag s, r) (rows s), clock = Suc (clock s)\<rparr>)"

definition table_client :: "table_store client" where
  "table_client =
     \<lparr>get_entity = (\<lambda>t pk rk s.
        case map_of (rows s) (t, pk, rk) of
          None \<Rightarrow> (Inl AzureMissingResourceHttpError, s)
        | Some (tag, r) \<Rightarrow> (Inr (AList.update ''etag'' (PStr tag) r), s)),
      insert_entity = (\<lambda>t r s.
        case map_of (rows s) (row_id t r) of
          None \<Rightarrow> put_row t r s
        | Some old \<Rightarrow> (Inl AzureConflictHttpError, s)),
      replace_entity = (\<lambda>t r if_match s.
        case map_of (rows s) (row_id t r) of
          None \<Rightarrow> (Inl AzureMissingResourceHttpError, s)
        | Some (tag, old) \<Rightarrow>
            if PStr tag = if_match then put_row t r s else (Inl (AzureHttpError 412), s)),
      insert_or_replace_entity = (\<lambda>t r s. put_row t r s),
      delete_entity = (\<lambda>t pk rk s.
        case map_of (rows s) (t, pk, rk) of
          None \<Rightarrow> (Inl AzureMissingResourceHttpError, s)
        | Some old \<Rightarrow> (Inr (), s\<lparr>rows := AList.delete (t, pk, rk) (rows s)\<rparr>))\<rparr>"

text \<open>A table client whose service is down: every call fails with status 500.\<close>

definition broken_client :: "table_store client" where
  "broken_client =
     \<lparr>get_entity = (\<lambda>t pk rk s. (Inl (AzureHttpError 500), s)),
      insert_entity = (\<lambda>t r s. (Inl (AzureHttpError 500), s)),
      replace_entity = (\<lambda>t r if_match s. (Inl (AzureHttpError 500), s)),
      insert_or_replace_entity = (\<lambda>t r s. (Inl (AzureHttpError 500), s)),
      delete_entity = (\<lambda>t pk rk s. (Inl (AzureHttpError 500), s))\<rparr>"

text \<open>
  The JSON text of a value without floats, for strings that need no escape beyond the
  quote and the backslash, with the separators \<^verbatim>\<open>json.dumps\<close> uses.
\<close>

fun json_escape :: "string \<Rightarrow> string" where
  "json_escape [] = []"
| "json_escape (c # cs) =
     (if c = CHR 0x22 \<or> c = CHR 0x5C then CHR 0x5C # c # json_escape cs
      else c # json_escape cs)"

fun json_text :: "pyval \<Rightarrow> string" where
  "json_text PNone = ''null''"
| "json_text (PBool b) = (if b then ''true'' else ''false'')"
| "json_text (PInt i) = str_int i"
| "json_text (PStr s) = [CHR 0x22] @ json_escape s @ [CHR 0x22]"
| "json_text (PList xs) = ''['' @ join '', '' (map json_text xs) @ '']''"
| "json_text (PDict kvs) =
     ''{'' @ join '', ''
        (map (\<lambda>kv. [CHR 0x22] @ json_escape (fst kv) @ [CHR 0x22] @ '': '' @ json_text (snd kv)) kvs)
      @ ''}''"
| "json_text v = []"

text \<open>The decoder of the examples: the inverse of \<open>json_text\<close> on the documents listed.\<close>

definition example_documents :: "pyval list" where
  "example_documents =
     [PDict [(''duration'', PInt 1)], PList [PStr ''a''], PList [], PDict []]"

definition json_parse :: "string \<Rightarrow> pyval option" where
  "json_parse s = find (\<lambda>v. json_text v = s) example_documents"

definition TaskState_init :: enum_member where
  "TaskState_init = EnumMember ''TaskState'' ''init'' (EStr ''init'')"

definition TaskState_running :: enum_member where
  "TaskState_running = EnumMember ''TaskState'' ''running'' (EStr ''running'')"

definition TaskState_stopping :: enum_member where
  "TaskState_stopping = EnumMember ''TaskState'' ''stopping'' (EStr ''stopping'')"

definition example_env :: env where
  "example_env =
     \<lparr>telemetry_events = [''Task''],
      update_types = [''Task'', ''Job'', ''Pool'', ''Node'', ''Scaleset''],
      needs_work = (\<lambda>c. if c = ''TaskState'' then Some [TaskState_init, TaskState_stopping]
                         else None),
      json_dumps = json_text,
      json_loads = json_parse\<rparr>"

definition decl :: "string \<Rightarrow> annotation \<Rightarrow> field_decl" where
  "decl n a = \<lparr>field_name = n, field_annotation = a, field_type = a\<rparr>"

text \<open>
  The validation of the examples stands for \<^verbatim>\<open>parse_obj\<close>: a field declared as a list
  must hold a list and a field declared as a model or a dictionary must hold a
  dictionary, as pydantic requires; other values pass as they are.
\<close>

fun shape_ok :: "annotation \<Rightarrow> pyval \<Rightarrow> bool" where
  "shape_ok (TList a) (PList xs) = True"
| "shape_ok (TList a) v = False"
| "shape_ok (TModel m) (PDict kvs) = True"
| "shape_ok (TModel m) v = False"
| "shape_ok (TDict k a) (PDict kvs) = True"
| "shape_ok (TDict k a) v = False"
| "shape_ok a v = True"

definition validate :: "field_decl list \<Rightarrow> pydict \<Rightarrow> exn + pydict" where
  "validate fs data =
     (if list_all (\<lambda>f. case map_of data (field_name f) of
                          None \<Rightarrow> True
                        | Some v \<Rightarrow> shape_ok (field_annotation f) v) fs
      then Inr data else Inl ValidationError)"

definition Task_fields :: "field_decl list" where
  "Task_fields =
     [decl ''job_id'' TUuid, decl ''task_id'' TUuid, decl ''state'' (TEnum ''TaskState''),
      decl ''note'' TStr, decl ''count'' TInt, decl ''config'' (TModel ''TaskConfig''),
      decl ''Timestamp'' TDatetime, decl ''etag'' TStr]"

definition Task :: orm_cls where
  "Task =
     \<lparr>cls_name = ''Task'',
      key_fields = Some (''job_id'', Some ''task_id''),
      cls_fields = Task_fields,
      save_exclude = None,
      event_include = Some [''job_id'', ''task_id'', ''state''],
      telemetry_include = Some [''job_id'', ''task_id''],
      parse_obj = validate Task_fields\<rparr>"

definition task_obj :: "enum_member \<Rightarrow> pydict" where
  "task_obj st =
     [(''job_id'', PUuid ''j1''), (''task_id'', PUuid ''t1''), (''state'', PEnum st),
      (''note'', PStr ''first''), (''count'', PInt 3),
      (''config'', PModel [(''duration'', PInt 1), (''target_env'', PNone)]),
      (''Timestamp'', PNone), (''etag'', PNone)]"

text \<open>
  A record type that keeps the defaults of \<^verbatim>\<open>ORMMixin\<close> (empty event and telemetry
  projections), with one key field and a field of type \<^verbatim>\<open>List[str]\<close>.
\<close>

definition Notes_fields :: "field_decl list" where
  "Notes_fields =
     [decl ''name'' TStr, decl ''tags'' (TList TStr),
      decl ''Timestamp'' TDatetime, decl ''etag'' TStr]"

definition Notes :: orm_cls where
  "Notes =
     \<lparr>cls_name = ''Notes'',
      key_fields = Some (''name'', None),
      cls_fields = Notes_fields,
      save_exclude = None,
      event_include = Some [],
      telemetry_include = Some [],
      parse_obj = validate Notes_fields\<rparr>"

definition notes_obj :: "pyval \<Rightarrow> pydict" where
  "notes_obj tag =
     [(''name'', PStr ''n1''), (''tags'', PList [PStr ''a'']),
      (''Timestamp'', PNone), (''etag'', tag)]"

definition empty_world :: "table_store world" where
  "empty_world = \<lparr>store = \<lparr>rows = [], clock = 0\<rparr>, trace = []\<rparr>"

text \<open>The world after a first task has been created.\<close>

definition saved_world :: "table_store world" where
  "saved_world =
     snd (snd (save example_env table_client Task (task_obj TaskState_init) True False
                 empty_world))"

section \<open>Properties of the query filter compiler\<close>

lemma post_filter_loop_iff:
  "post_filter_loop value fs \<longleftrightarrow>
     (\<forall>(field, allowed) \<in> set fs.
        \<exists>v. map_of value field = Some v \<and> (\<exists>a \<in> set allowed. py_eq a v))"
  by (induction fs) (auto simp: list_ex_iff split: option.splits if_splits)

text \<open>
  Claim C5. A query that constrains one field to two enumerated values \<open>a\<close> and \<open>b\<close>
  compiles to exactly the server expression \<^verbatim>\<open>(field eq 'a' or field eq 'b')\<close>, under
  the store-side name of the field, with no residual filter; the character \<open>CHR 0x27\<close>
  is the single quote, written out on both sides of each name. The group of a field with
  more than one clause is parenthesized, a group of one clause is not, and the groups of
  several fields are joined with \<^verbatim>\<open> and \<close>. A field constrained to a free-text string
  (one that contains a space, say) yields no server expression and the residual filter
  that maps the field to the given list.
\<close>

theorem build_filters_examples:
  assumes "key_fields cls = Some (pkf, rkf)"
    and "f \<in> set (field_names cls)" and "g \<in> set (field_names cls)"
  shows "build_filters cls (Some [(f, [PEnum a, PEnum b])]) =
           Inr (Some (''('' @ store_field_name pkf rkf f @ '' eq ''
                        @ [CHR 0x27] @ enum_name a @ [CHR 0x27]
                      @ '' or '' @ store_field_name pkf rkf f @ '' eq ''
                        @ [CHR 0x27] @ enum_name b @ [CHR 0x27]
                      @ '')''), [])
       \<and> build_filters cls (Some [(f, [PEnum a, PEnum b]), (g, [PEnum c])]) =
           Inr (Some (''('' @ store_field_name pkf rkf f @ '' eq ''
                        @ [CHR 0x27] @ enum_name a @ [CHR 0x27]
                      @ '' or '' @ store_field_name pkf rkf f @ '' eq ''
                        @ [CHR 0x27] @ enum_name b @ [CHR 0x27]
                      @ '')'' @ '' and ''
                      @ store_field_name pkf rkf g @ '' eq ''
                        @ [CHR 0x27] @ enum_name c @ [CHR 0x27]), [])
       \<and> build_filters cls (Some [(g, [PStr s])]) =
           Inr (None, [(store_field_name pkf rkf g, [PStr s])])"
  using assms by (simp add: build_filters_def field_parts_def add_parts_def quote_def)

theorem build_filters_examples_witness:
  "key_fields Task = Some (''job_id'', Some ''task_id'')
   \<and> ''state'' \<in> set (field_names Task) \<and> ''note'' \<in> set (field_names Task)
   \<and> build_filters Task (Some [(''state'', [PEnum TaskState_init, PEnum TaskState_running])]) =
        Inr (Some [CHR ''('', CHR ''s'', CHR ''t'', CHR ''a'', CHR ''t'', CHR ''e'', CHR '' '',
                   CHR ''e'', CHR ''q'', CHR '' '', CHR 0x27, CHR ''i'', CHR ''n'', CHR ''i'',
                   CHR ''t'', CHR 0x27, CHR '' '', CHR ''o'', CHR ''r'', CHR '' '', CHR ''s'',
                   CHR ''t'', CHR ''a'', CHR ''t'', CHR ''e'', CHR '' '', CHR ''e'', CHR ''q'',
                   CHR '' '', CHR 0x27, CHR ''r'', CHR ''u'', CHR ''n'', CHR ''n'', CHR ''i'',
                   CHR ''n'', CHR ''g'', CHR 0x27, CHR '')''], [])
   \<and> build_filters Task (Some [(''note'', [PStr ''contains space''])]) =
        Inr (None, [(''note'', [PStr ''contains space''])])"
proof -
  have k: "key_fields Task = Some (''job_id'', Some ''task_id'')"
    by (simp add: Task_def)
  have f: "''state'' \<in> set (field_names Task)"
    by (simp add: Task_def Task_fields_def field_names_def decl_def)
  have g: "''note'' \<in> set (field_names Task)"
    by (simp add: Task_def Task_fields_def field_names_def decl_def)
  show ?thesis
    using k f g
      build_filters_examples [OF k f g, of TaskState_init TaskState_running _ "''contains space''"]
    by (simp add: store_field_name_def TaskState_init_def TaskState_running_def)
qed

text \<open>
  Claim C6. The post filter accepts a row exactly when, for every field named in the
  residual filters, the row holds the field and its value is a member of the list of
  values allowed for that field, membership being Python's: some element of the list
  equals the value. A row that lacks a filtered field is therefore rejected, and an
  empty or absent filter set accepts every row.
\<close>

theorem post_filter_correct:
  "post_filter value filters \<longleftrightarrow>
     (case filters of
        None \<Rightarrow> True
      | Some fs \<Rightarrow>
          \<forall>(field, allowed) \<in> set fs.
            \<exists>v. map_of value field = Some v \<and> (\<exists>a \<in> set allowed. py_eq a v))"
  by (auto simp add: post_filter_def post_filter_loop_iff split: option.splits)

theorem post_filter_correct_witness:
  "post_filter [(''note'', PStr ''a b''), (''count'', PInt 3)]
     (Some [(''note'', [PStr ''x'', PStr ''a b''])])
   \<and> post_filter [(''note'', PStr ''a'')] (Some [(''note'', [PContainer ''a'', PStr ''b c''])])
   \<and> \<not> post_filter [(''count'', PInt 3)] (Some [(''note'', [PStr ''x'', PStr ''a b''])])
   \<and> \<not> post_filter [(''note'', PStr ''y'')] (Some [(''note'', [PStr ''x'', PStr ''a b''])])
   \<and> post_filter [(''count'', PInt 3)] (Some [])
   \<and> post_filter [(''count'', PInt 3)] None"
  using
    post_filter_correct [of "[(''note'', PStr ''a b''), (''count'', PInt 3)]"
      "Some [(''note'', [PStr ''x'', PStr ''a b''])]"]
    post_filter_correct [of "[(''note'', PStr ''a'')]"
      "Some [(''note'', [PContainer ''a'', PStr ''b c''])]"]
    post_filter_correct [of "[(''count'', PInt 3)]" "Some [(''note'', [PStr ''x'', PStr ''a b''])]"]
    post_filter_correct [of "[(''note'', PStr ''y'')]" "Some [(''note'', [PStr ''x'', PStr ''a b''])]"]
    post_filter_correct [of "[(''count'', PInt 3)]" "Some []"]
    post_filter_correct [of "[(''count'', PInt 3)]" None]
  by (simp add: text_of_def)

subsection \<open>Which value lists are deferred, and which are refused\<close>

lemma int_parts_cases:
  "int_parts fn vs = (if list_all is_int vs then Inr (map (\<lambda>v. fn @ '' eq '' @ fmt_d v) vs) else Inl TypeError)"
  by (induction fn vs rule: int_parts.induct) auto

lemma enum_parts_cases:
  "enum_parts fn vs = (if list_all is_enum vs then Inr (map (\<lambda>v. fn @ '' eq '' @ quote (state_name v)) vs) else Inl TypeError)"
  by (induction fn vs rule: enum_parts.induct) (auto simp: state_name_def)

lemma field_parts_mixed:
  "(is_int (hd vs) \<and> \<not> list_all is_int vs) \<or> (is_enum (hd vs) \<and> \<not> list_all is_enum vs)
     \<Longrightarrow> field_parts fn vs = Inl TypeError"
  by (cases vs; cases "hd vs") (auto simp: field_parts_def int_parts_cases enum_parts_cases)

lemma field_parts_deferred:
  "\<not> is_int (hd vs) \<Longrightarrow> \<not> is_enum (hd vs) \<Longrightarrow> \<not> list_all is_safe_string vs
     \<Longrightarrow> field_parts fn vs = Inr None"
  by (simp add: field_parts_def)

lemma field_parts_server:
  "vs \<noteq> [] \<Longrightarrow> \<not> ((is_int (hd vs) \<and> \<not> list_all is_int vs) \<or> (is_enum (hd vs) \<and> \<not> list_all is_enum vs))
     \<Longrightarrow> \<not> (\<not> is_int (hd vs) \<and> \<not> is_enum (hd vs) \<and> \<not> list_all is_safe_string vs)
     \<Longrightarrow> \<exists>ps. field_parts fn vs = Inr (Some ps)"
  by (auto simp: field_parts_def int_parts_cases enum_parts_cases)

lemma update_fresh: "k \<notin> fst ` set al \<Longrightarrow> AList.update k v al = al @ [(k, v)]"
  by (induction al) auto

lemma build_loop_mixed:
  assumes "\<forall>(f, vs) \<in> set q. f \<in> set (field_names cls)"
    and "\<exists>(f, vs) \<in> set q. vs \<noteq> [] \<and>
           ((is_int (hd vs) \<and> \<not> list_all is_int vs) \<or> (is_enum (hd vs) \<and> \<not> list_all is_enum vs))"
  shows "build_loop cls pkf rkf q sfp pf = Inl TypeError"
  using assms
proof (induction q arbitrary: sfp pf)
  case Nil
  then show ?case by simp
next
  case (Cons a q)
  obtain f vs where a: "a = (f, vs)" by (cases a)
  show ?case
  proof (cases "vs \<noteq> [] \<and> ((is_int (hd vs) \<and> \<not> list_all is_int vs) \<or> (is_enum (hd vs) \<and> \<not> list_all is_enum vs))")
    case True
    then have "field_parts (store_field_name pkf rkf f) vs = Inl TypeError"
      using field_parts_mixed by blast
    with True Cons.prems(1) a show ?thesis by simp
  next
    case False
    with Cons.prems a have rest: "\<forall>(f, vs) \<in> set q. f \<in> set (field_names cls)"
      "\<exists>(f, vs) \<in> set q. vs \<noteq> [] \<and>
           ((is_int (hd vs) \<and> \<not> list_all is_int vs) \<or> (is_enum (hd vs) \<and> \<not> list_all is_enum vs))"
      by auto
    have ih: "\<And>sfp pf. build_loop cls pkf rkf q sfp pf = Inl TypeError"
      using Cons.IH rest by blast
    from Cons.prems(1) a have known: "f \<in> set (field_names cls)" by simp
    show ?thesis
    proof (cases "vs = []")
      case True
      with a known ih show ?thesis by simp
    next
      case ne: False
      with False have nm: "\<not> ((is_int (hd vs) \<and> \<not> list_all is_int vs) \<or> (is_enum (hd vs) \<and> \<not> list_all is_enum vs))"
        by simp
      show ?thesis
      proof (cases "\<not> is_int (hd vs) \<and> \<not> is_enum (hd vs) \<and> \<not> list_all is_safe_string vs")
        case True
        then have "field_parts (store_field_name pkf rkf f) vs = Inr None"
          using field_parts_deferred by blast
        with a known ne ih show ?thesis by simp
      next
        case False
        then obtain ps where "field_parts (store_field_name pkf rkf f) vs = Inr (Some ps)"
          using field_parts_server [OF ne nm] by blast
        with a known ne ih show ?thesis by simp
      qed
    qed
  qed
qed

lemma build_loop_ok:
  assumes "\<forall>(f, vs) \<in> set q. f \<in> set (field_names cls)"
    and "\<not> (\<exists>(f, vs) \<in> set q. vs \<noteq> [] \<and>
           ((is_int (hd vs) \<and> \<not> list_all is_int vs) \<or> (is_enum (hd vs) \<and> \<not> list_all is_enum vs)))"
    and "distinct (map (\<lambda>(f, vs). store_field_name pkf rkf f) q)"
    and "\<forall>(f, vs) \<in> set q. store_field_name pkf rkf f \<notin> fst ` set pf"
  shows "\<exists>sfp'. build_loop cls pkf rkf q sfp pf =
           Inr (sfp', pf @ map (\<lambda>(f, vs). (store_field_name pkf rkf f, vs))
                  (filter (\<lambda>(f, vs). vs \<noteq> [] \<and> \<not> is_int (hd vs) \<and> \<not> is_enum (hd vs)
                                      \<and> \<not> list_all is_safe_string vs) q))"
  using assms
proof (induction q arbitrary: sfp pf)
  case Nil
  then show ?case by simp
next
  case (Cons a q)
  obtain f vs where a: "a = (f, vs)" by (cases a)
  from Cons.prems(1) a have known: "f \<in> set (field_names cls)" by simp
  have rest1: "\<forall>(f, vs) \<in> set q. f \<in> set (field_names cls)"
    using Cons.prems(1) by simp
  have rest2: "\<not> (\<exists>(f, vs) \<in> set q. vs \<noteq> [] \<and>
           ((is_int (hd vs) \<and> \<not> list_all is_int vs) \<or> (is_enum (hd vs) \<and> \<not> list_all is_enum vs)))"
    using Cons.prems(2) by auto
  have rest3: "distinct (map (\<lambda>(f, vs). store_field_name pkf rkf f) q)"
    using Cons.prems(3) by simp
  have fresh_f: "store_field_name pkf rkf f \<notin> fst ` set pf"
    using Cons.prems(4) a by simp
  have rest4: "\<forall>(g, ws) \<in> set q. store_field_name pkf rkf g \<notin> fst ` set pf"
    using Cons.prems(4) by simp
  have others: "\<forall>(g, ws) \<in> set q. store_field_name pkf rkf g \<noteq> store_field_name pkf rkf f"
    using Cons.prems(3) a by (auto simp: image_iff)
  show ?case
  proof (cases "vs = []")
    case True
    with a known Cons.IH [OF rest1 rest2 rest3 rest4] show ?thesis by simp
  next
    case ne: False
    have nm: "\<not> ((is_int (hd vs) \<and> \<not> list_all is_int vs) \<or> (is_enum (hd vs) \<and> \<not> list_all is_enum vs))"
      using Cons.prems(2) a ne by auto
    show ?thesis
    proof (cases "\<not> is_int (hd vs) \<and> \<not> is_enum (hd vs) \<and> \<not> list_all is_safe_string vs")
      case True
      then have fp: "field_parts (store_field_name pkf rkf f) vs = Inr None"
        using field_parts_deferred by blast
      have upd: "AList.update (store_field_name pkf rkf f) vs pf = pf @ [(store_field_name pkf rkf f, vs)]"
        using fresh_f by (rule update_fresh)
      have rest4': "\<forall>(g, ws) \<in> set q. store_field_name pkf rkf g \<notin> fst ` set (pf @ [(store_field_name pkf rkf f, vs)])"
        using rest4 others by auto
      from Cons.IH [OF rest1 rest2 rest3 rest4', of sfp] a known ne fp upd True
      show ?thesis by simp
    next
      case False
      then obtain ps where fp: "field_parts (store_field_name pkf rkf f) vs = Inr (Some ps)"
        using field_parts_server [OF ne nm] by blast
      from Cons.IH [OF rest1 rest2 rest3 rest4, of "add_parts (Some ps) sfp"] a known ne fp False
      show ?thesis by auto
    qed
  qed
qed

text \<open>
  Claim C4, as stated, fails: a value list whose first element is an integer and which
  also holds a string is not deferred to the residual filters; the compiler raises
  \<^verbatim>\<open>TypeError\<close>.
\<close>

theorem build_filters_mixed_list_raises:
  "build_filters Task (Some [(''note'', [PInt 1, PStr ''contains space''])]) = Inl TypeError"
  by (simp add: build_filters_def Task_def Task_fields_def field_names_def decl_def field_parts_def)

text \<open>
  Claim C4, amended. Take a non-empty query over declared fields whose store-side names
  are distinct. If some non-empty value list starts with an integer but holds a value
  that is no integer, or starts with an enumerated symbol but holds a value that is
  none, compilation fails with \<^verbatim>\<open>TypeError\<close>. Otherwise compilation succeeds, and the
  residual filters are exactly the fields whose non-empty value list starts with neither
  an integer nor an enumerated symbol and is not made of safe strings only, each under
  its store-side name with its value list, in the order of the query.
\<close>

theorem build_filters_deferral:
  assumes "key_fields cls = Some (pkf, rkf)" and "q \<noteq> []"
    and "\<forall>(f, vs) \<in> set q. f \<in> set (field_names cls)"
    and "distinct (map (\<lambda>(f, vs). store_field_name pkf rkf f) q)"
  shows "if \<exists>(f, vs) \<in> set q. vs \<noteq> [] \<and>
              ((is_int (hd vs) \<and> \<not> list_all is_int vs) \<or> (is_enum (hd vs) \<and> \<not> list_all is_enum vs))
         then build_filters cls (Some q) = Inl TypeError
         else \<exists>expr. build_filters cls (Some q) =
                Inr (expr, map (\<lambda>(f, vs). (store_field_name pkf rkf f, vs))
                  (filter (\<lambda>(f, vs). vs \<noteq> [] \<and> \<not> is_int (hd vs) \<and> \<not> is_enum (hd vs)
                                      \<and> \<not> list_all is_safe_string vs) q))"
proof (cases "\<exists>(f, vs) \<in> set q. vs \<noteq> [] \<and>
              ((is_int (hd vs) \<and> \<not> list_all is_int vs) \<or> (is_enum (hd vs) \<and> \<not> list_all is_enum vs))")
  case True
  then have "build_loop cls pkf rkf q [] [] = Inl TypeError"
    using build_loop_mixed [OF assms(3)] by blast
  with True assms(1,2) show ?thesis by (simp add: build_filters_def)
next
  case False
  have "\<forall>(f, vs) \<in> set q. store_field_name pkf rkf f \<notin> fst ` set ([] :: QueryFilter)"
    by simp
  from build_loop_ok [OF assms(3) False assms(4) this, of "[]"]
  obtain sfp' where "build_loop cls pkf rkf q [] [] =
           Inr (sfp', map (\<lambda>(f, vs). (store_field_name pkf rkf f, vs))
                  (filter (\<lambda>(f, vs). vs \<noteq> [] \<and> \<not> is_int (hd vs) \<and> \<not> is_enum (hd vs)
                                      \<and> \<not> list_all is_safe_string vs) q))"
    by auto
  with False assms(1,2) show ?thesis by (simp add: build_filters_def)
qed

theorem build_filters_deferral_witness:
  "key_fields Task = Some (''job_id'', Some ''task_id'')
   \<and> distinct (map (\<lambda>(f, vs). store_field_name ''job_id'' (Some ''task_id'') f)
                 [(''note'', [PStr ''a b'']), (''count'', [PInt 1, PInt 2])])
   \<and> (\<exists>expr. build_filters Task (Some [(''note'', [PStr ''a b'']), (''count'', [PInt 1, PInt 2])]) =
         Inr (expr, [(''note'', [PStr ''a b''])]))
   \<and> distinct (map (\<lambda>(f, vs). store_field_name ''job_id'' (Some ''task_id'') f)
                 [(''job_id'', [PUuid ''j1'']), (''count'', [PInt 1, PStr ''x''])])
   \<and> build_filters Task (Some [(''job_id'', [PUuid ''j1'']), (''count'', [PInt 1, PStr ''x''])]) =
         Inl TypeError"
proof -
  have k: "key_fields Task = Some (''job_id'', Some ''task_id'')"
    by (simp add: Task_def)
  have n1: "[(''note'', [PStr ''a b'']), (''count'', [PInt 1, PInt 2])] \<noteq> []"
    and n2: "[(''job_id'', [PUuid ''j1'']), (''count'', [PInt 1, PStr ''x''])] \<noteq> []"
    by simp_all
  have f1: "\<forall>(f, vs) \<in> set [(''note'', [PStr ''a b'']), (''count'', [PInt 1, PInt 2])].
          f \<in> set (field_names Task)"
    by (simp add: Task_def Task_fields_def field_names_def decl_def)
  have f2: "\<forall>(f, vs) \<in> set [(''job_id'', [PUuid ''j1'']), (''count'', [PInt 1, PStr ''x''])].
          f \<in> set (field_names Task)"
    by (simp add: Task_def Task_fields_def field_names_def decl_def)
  have d1: "distinct (map (\<lambda>(f, vs). store_field_name ''job_id'' (Some ''task_id'') f)
                 [(''note'', [PStr ''a b'']), (''count'', [PInt 1, PInt 2])])"
    by (simp add: store_field_name_def)
  have d2: "distinct (map (\<lambda>(f, vs). store_field_name ''job_id'' (Some ''task_id'') f)
                 [(''job_id'', [PUuid ''j1'']), (''count'', [PInt 1, PStr ''x''])])"
    by (simp add: store_field_name_def)
  show ?thesis
    using k d1 d2 build_filters_deferral [OF k n1 f1 d1] build_filters_deferral [OF k n2 f2 d2]
    by (simp add: store_field_name_def)
qed

section \<open>Properties of the record engine\<close>

subsection \<open>What a successful save leaves in the trace\<close>

lemma queue_returned:
  assumes "queue env cls self m vt w = (Returned u, w')"
  shows "\<exists>pkv rkv pk rk. get_keys cls self = Inr (pkv, rkv) \<and> resolve pkv = Inr pk \<and> resolve rkv = Inr rk
           \<and> w' = emit (QueueUpdate (cls_name cls) pk rk m vt) w"
  using assms by (auto simp: queue_def split: if_splits sum.splits prod.splits)

lemma queue_as_needed_returned:
  assumes "queue_as_needed env cls self w = (Returned u, w')"
  shows "(state_needs_work env (getattr self ''state'') = None \<longrightarrow> w' = w)
       \<and> (\<forall>work. state_needs_work env (getattr self ''state'') = Some work
             \<and> getattr self ''state'' \<notin> set work \<longrightarrow> w' = w)
       \<and> (\<forall>work. state_needs_work env (getattr self ''state'') = Some work
             \<and> getattr self ''state'' \<in> set work \<longrightarrow>
             (\<exists>pkv rkv pk rk. get_keys cls self = Inr (pkv, rkv) \<and> resolve pkv = Inr pk
                \<and> resolve rkv = Inr rk
                \<and> w' = emit (QueueUpdate (cls_name cls) pk rk None
                          (Some (if state_name (getattr self ''state'') \<in> {''stopping'', ''stop'', ''shutdown''}
                                 then 30 else 5))) w))"
proof (cases "map_of self ''state''")
  case None
  then show ?thesis using assms
    by (simp add: queue_as_needed_def getattr_def state_needs_work_def)
next
  case (Some state)
  note Some1 = Some
  show ?thesis
  proof (cases "state_needs_work env state")
    case None
    with Some1 assms show ?thesis
      by (auto simp: queue_as_needed_def getattr_def split: if_splits)
  next
    case (Some work)
    note Some2 = Some
    have ne: "state \<noteq> PNone" using Some2 by (auto simp: state_needs_work_def)
    show ?thesis
    proof (cases "state \<in> set work")
      case False
      with Some1 Some2 ne assms show ?thesis
        by (simp add: queue_as_needed_def getattr_def)
    next
      case True
      show ?thesis
      proof (cases "state_name state \<in> set [''stopping'', ''stop'', ''shutdown'']")
        case st: True
        with Some1 Some2 ne True assms
        have "queue env cls self None (Some QUEUE_DELAY_STOPPING_SECONDS) w = (Returned u, w')"
          by (simp add: queue_as_needed_def)
        from queue_returned [OF this] st Some1 Some2 True show ?thesis
          by (auto simp: getattr_def QUEUE_DELAY_STOPPING_SECONDS_def)
      next
        case st: False
        with Some1 Some2 ne True assms
        have "queue env cls self None (Some QUEUE_DELAY_CREATE_SECONDS) w = (Returned u, w')"
          by (simp add: queue_as_needed_def)
        from queue_returned [OF this] st Some1 Some2 True show ?thesis
          by (auto simp: getattr_def QUEUE_DELAY_CREATE_SECONDS_def)
      qed
    qed
  qed
qed

lemma after_write_returned:
  assumes "after_write env cls self w = (Returned x, self', w')"
  shows "x = None \<and> self' = self \<and>
     (\<exists>wq. queue_as_needed env cls self w = (Returned (), wq)
        \<and> w' = event_as_needed cls self (telemetry_as_needed env cls self wq))"
  using assms by (auto simp: after_write_def split: prod.splits outcome.splits)

lemma call_store_trace:
  "call_store e f w = (r, w1) \<Longrightarrow> trace w1 = trace w @ [e] \<and> (r, store w1) = f (store w)"
  by (auto simp: call_store_def split: prod.splits)

lemma save_returned_none:
  assumes "save env cl cls self new require_etag w = (Returned None, self', w')"
  shows "\<exists>r t w1 wq op. save_row env cls self = Inr r \<and> self' = set_etag self t
     \<and> trace w1 = trace w @ [op]
     \<and> op \<in> {InsertEntity (table_name cls) r, ReplaceEntity (table_name cls) r (getattr self ''etag''),
              InsertOrReplaceEntity (table_name cls) r}
     \<and> queue_as_needed env cls self' w1 = (Returned (), wq)
     \<and> w' = event_as_needed cls self' (telemetry_as_needed env cls self' wq)"
proof -
  from assms obtain r where r: "save_row env cls self = Inr r"
    by (auto simp: save_def split: sum.splits)
  show ?thesis
  proof (cases new)
    case True
    with assms r obtain t w1 where
      c: "call_store (InsertEntity (table_name cls) r) (insert_entity cl (table_name cls) r) w = (Inr t, w1)"
      and a: "after_write env cls (set_etag self t) w1 = (Returned None, self', w')"
      by (auto simp: save_def split: prod.splits sum.splits if_splits)
    from after_write_returned [OF a] call_store_trace [OF c] r show ?thesis by blast
  next
    case False
    show ?thesis
    proof (cases "truthy (getattr self ''etag'') \<and> require_etag")
      case True
      with False assms r obtain t w1 where
        c: "call_store (ReplaceEntity (table_name cls) r (getattr self ''etag''))
              (replace_entity cl (table_name cls) r (getattr self ''etag'')) w = (Inr t, w1)"
        and a: "after_write env cls (set_etag self t) w1 = (Returned None, self', w')"
        by (auto simp: save_def split: prod.splits sum.splits if_splits)
      from after_write_returned [OF a] call_store_trace [OF c] r show ?thesis by blast
    next
      case ne: False
      with False assms r obtain t w1 where
        c: "call_store (InsertOrReplaceEntity (table_name cls) r)
              (insert_or_replace_entity cl (table_name cls) r) w = (Inr t, w1)"
        and a: "after_write env cls (set_etag self t) w1 = (Returned None, self', w')"
        by (auto simp: save_def split: prod.splits sum.splits if_splits)
      from after_write_returned [OF a] call_store_trace [OF c] r show ?thesis by blast
    qed
  qed
qed

lemma filter_emit [simp]: "filter P (trace (emit e w)) = filter P (trace w) @ (if P e then [e] else [])"
  by (simp add: emit_def)

lemma event_as_needed_trace:
  "trace (event_as_needed cls self w) =
     trace w @ (if event cls self = [] then [] else [AddEvent (table_name cls) (event cls self)])"
  by (simp add: event_as_needed_def emit_def Let_def)

lemma telemetry_as_needed_trace:
  "trace (telemetry_as_needed env cls self w) =
     trace w @ (if table_name cls \<in> set (telemetry_events env) \<and> telemetry cls self \<noteq> []
                then [TrackEvent (table_name cls) (telemetry cls self)] else [])"
  by (simp add: telemetry_as_needed_def emit_def Let_def)

lemma queue_as_needed_trace:
  assumes "queue_as_needed env cls self w = (Returned u, w')"
  shows "\<exists>msgs. trace w' = trace w @ msgs \<and> list_all is_queue_update msgs"
proof (cases "state_needs_work env (getattr self ''state'')")
  case None
  with queue_as_needed_returned [OF assms] show ?thesis by auto
next
  case (Some work)
  with queue_as_needed_returned [OF assms] show ?thesis
    by (cases "getattr self ''state'' \<in> set work") (auto simp: emit_def)
qed

subsection \<open>Conflicts\<close>

text \<open>
  Claim C1, as stated, fails for the conditional replace: a task is created, then saved
  with \<^verbatim>\<open>new=False\<close>, \<^verbatim>\<open>require_etag=True\<close> and a token that is not the one of the
  stored row. The failure of the store (status 412) leaves \<^verbatim>\<open>save\<close> as an exception;
  no error value is returned.
\<close>

theorem save_stale_token_raises:
  "fst (save example_env table_client Task (set_etag (task_obj TaskState_init) ''stale'') False True
          saved_world) = Raised (AzureHttpError 412)"
  unfolding saved_world_def by code_simp

text \<open>
  Claim C1, amended. Whenever the record serializes to a row: an insert (\<^verbatim>\<open>new=True\<close>)
  that the store refuses with a conflict is returned to the caller as the error value
  \<^verbatim>\<open>UNABLE_TO_CREATE\<close> with the message \<^verbatim>\<open>row exists\<close>, the record unchanged; a
  conditional replace (\<^verbatim>\<open>new=False\<close>, a token present, \<^verbatim>\<open>require_etag=True\<close>) that
  the store refuses, for a token that no longer matches or for any other reason, is not
  turned into an error value: the exception of the store is raised to the caller.
\<close>

theorem save_conflict_surfacing:
  assumes "save_row env cls self = Inr r"
  shows "(insert_entity cl (table_name cls) r (store w) = (Inl AzureConflictHttpError, s') \<longrightarrow>
            save env cl cls self True require_etag w =
              (Returned (Some (Error UNABLE_TO_CREATE [''row exists''])), self,
               \<lparr>store = s', trace = trace w @ [InsertEntity (table_name cls) r]\<rparr>))
       \<and> (truthy (getattr self ''etag'')
            \<and> replace_entity cl (table_name cls) r (getattr self ''etag'') (store w) = (Inl e, s') \<longrightarrow>
            save env cl cls self False True w =
              (Raised e, self,
               \<lparr>store = s',
                trace = trace w @ [ReplaceEntity (table_name cls) r (getattr self ''etag'')]\<rparr>))"
  using assms by (simp add: save_def call_store_def)

theorem save_conflict_surfacing_witness:
  "fst (save example_env table_client Task (task_obj TaskState_init) True False saved_world)
     = Returned (Some (Error UNABLE_TO_CREATE [''row exists'']))
   \<and> truthy (getattr (set_etag (task_obj TaskState_init) ''stale'') ''etag'')
   \<and> fst (save example_env table_client Task (set_etag (task_obj TaskState_init) ''stale'') False True
            saved_world) = Raised (AzureHttpError 412)"
proof -
  have r1: "save_row example_env Task (task_obj TaskState_init) =
      Inr [(''state'', PStr ''init''), (''note'', PStr ''first''), (''count'', PInt 3),
           (''config'', PStr (json_text (PDict [(''duration'', PInt 1)]))),
           (''PartitionKey'', PStr ''j1''), (''RowKey'', PStr ''t1'')]"
    by code_simp
  have c1: "insert_entity table_client (table_name Task)
       [(''state'', PStr ''init''), (''note'', PStr ''first''), (''count'', PInt 3),
        (''config'', PStr (json_text (PDict [(''duration'', PInt 1)]))),
        (''PartitionKey'', PStr ''j1''), (''RowKey'', PStr ''t1'')] (store saved_world)
      = (Inl AzureConflictHttpError, store saved_world)"
    unfolding saved_world_def by code_simp
  have r2: "save_row example_env Task (set_etag (task_obj TaskState_init) ''stale'') =
      Inr [(''state'', PStr ''init''), (''note'', PStr ''first''), (''count'', PInt 3),
           (''config'', PStr (json_text (PDict [(''duration'', PInt 1)]))), (''etag'', PStr ''stale''),
           (''PartitionKey'', PStr ''j1''), (''RowKey'', PStr ''t1'')]"
    by code_simp
  have t: "truthy (getattr (set_etag (task_obj TaskState_init) ''stale'') ''etag'')"
    by code_simp
  have g: "getattr (set_etag (task_obj TaskState_init) ''stale'') ''etag'' = PStr ''stale''"
    by code_simp
  have c2: "replace_entity table_client (table_name Task)
       [(''state'', PStr ''init''), (''note'', PStr ''first''), (''count'', PInt 3),
        (''config'', PStr (json_text (PDict [(''duration'', PInt 1)]))), (''etag'', PStr ''stale''),
        (''PartitionKey'', PStr ''j1''), (''RowKey'', PStr ''t1'')]
       (getattr (set_etag (task_obj TaskState_init) ''stale'') ''etag'') (store saved_world)
      = (Inl (AzureHttpError 412), store saved_world)"
    unfolding saved_world_def by code_simp
  from save_conflict_surfacing [OF r1, of table_client saved_world "store saved_world" False] c1
  have a: "fst (save example_env table_client Task (task_obj TaskState_init) True False saved_world)
     = Returned (Some (Error UNABLE_TO_CREATE [''row exists'']))"
    by simp
  from save_conflict_surfacing [OF r2, of table_client saved_world "store saved_world" _ "AzureHttpError 412"] t c2
  have b: "fst (save example_env table_client Task (set_etag (task_obj TaskState_init) ''stale'') False True
            saved_world) = Raised (AzureHttpError 412)"
    by simp
  from a t b show ?thesis by blast
qed

subsection \<open>Event and telemetry\<close>

text \<open>
  Claim C7, as stated, fails: a record of a type that keeps the default event projection,
  which is empty, is saved successfully and nothing is pushed to the dashboard channel.
\<close>

theorem save_empty_projection_no_event:
  "fst (save example_env table_client Notes (notes_obj PNone) False False empty_world) = Returned None
   \<and> filter is_add_event
        (trace (snd (snd (save example_env table_client Notes (notes_obj PNone) False False
                            empty_world)))) = []"
  by code_simp

text \<open>
  Claim C7, amended. On every successful save the event projection of the record is
  pushed to the dashboard channel once if it is not empty, and not at all if it is
  empty; the telemetry projection is pushed once if the record type is in the
  telemetry-event catalog and the projection is not empty, and not at all otherwise.
\<close>

theorem save_event_and_telemetry:
  assumes "save env cl cls self new require_etag w = (Returned None, self', w')"
  shows "filter is_add_event (trace w') =
           filter is_add_event (trace w)
           @ (if event cls self' = [] then [] else [AddEvent (table_name cls) (event cls self')])
       \<and> filter is_track_event (trace w') =
           filter is_track_event (trace w)
           @ (if table_name cls \<in> set (telemetry_events env) \<and> telemetry cls self' \<noteq> []
              then [TrackEvent (table_name cls) (telemetry cls self')] else [])"
proof -
  from save_returned_none [OF assms] obtain r t w1 wq op where
    tr: "trace w1 = trace w @ [op]"
    and op: "op \<in> {InsertEntity (table_name cls) r, ReplaceEntity (table_name cls) r (getattr self ''etag''),
              InsertOrReplaceEntity (table_name cls) r}"
    and q: "queue_as_needed env cls self' w1 = (Returned (), wq)"
    and w': "w' = event_as_needed cls self' (telemetry_as_needed env cls self' wq)"
    by blast
  from queue_as_needed_trace [OF q] obtain msgs where
    m: "trace wq = trace w1 @ msgs" "list_all is_queue_update msgs" by blast
  have a: "filter is_add_event msgs = []" "filter is_track_event msgs = []"
    using m(2) by (induction msgs; (auto elim: is_queue_update.elims)[1])+
  have b: "\<not> is_add_event op" "\<not> is_track_event op"
    using op by auto
  show ?thesis
    using a b by (simp add: w' event_as_needed_trace telemetry_as_needed_trace m(1) tr)
qed

theorem save_event_and_telemetry_witness:
  "fst (save example_env table_client Task (task_obj TaskState_init) True False empty_world)
     = Returned None
   \<and> filter is_add_event (trace saved_world) =
       [AddEvent ''Task'' [(''job_id'', PStr ''j1''), (''task_id'', PStr ''t1''), (''state'', PStr ''init'')]]
   \<and> filter is_track_event (trace saved_world) =
       [TrackEvent ''Task'' [(''job_id'', PStr ''j1''), (''task_id'', PStr ''t1'')]]"
proof -
  have h: "save example_env table_client Task (task_obj TaskState_init) True False empty_world
           = (Returned None, set_etag (task_obj TaskState_init) ''W/0'', saved_world)"
    unfolding saved_world_def by code_simp
  have e: "event Task (set_etag (task_obj TaskState_init) ''W/0'') =
       [(''job_id'', PStr ''j1''), (''task_id'', PStr ''t1''), (''state'', PStr ''init'')]"
    by code_simp
  have t: "telemetry Task (set_etag (task_obj TaskState_init) ''W/0'') =
       [(''job_id'', PStr ''j1''), (''task_id'', PStr ''t1'')]"
    by code_simp
  have n: "table_name Task = ''Task''" "telemetry_events example_env = [''Task'']"
    "trace empty_world = []"
    by (simp_all add: table_name_def Task_def example_env_def empty_world_def)
  show ?thesis
    using h save_event_and_telemetry [OF h] by (simp add: e t n)
qed

subsection \<open>Dispatcher\<close>

lemma filter_queue_event_as_needed:
  "filter is_queue_update (trace (event_as_needed cls self w)) = filter is_queue_update (trace w)"
  by (simp add: event_as_needed_trace)

lemma filter_queue_telemetry_as_needed:
  "filter is_queue_update (trace (telemetry_as_needed env cls self w)) = filter is_queue_update (trace w)"
  by (simp add: telemetry_as_needed_trace)

lemma getattr_set_etag: "f \<noteq> ''etag'' \<Longrightarrow> getattr (set_etag self t) f = getattr self f"
  by (simp add: getattr_def set_etag_def update_conv')

text \<open>
  Claim C8. After every successful save: a record without a work state (or whose state
  has no \<^verbatim>\<open>needs_work\<close>) enqueues nothing; a record whose state is not in the set of
  states that need work enqueues nothing; otherwise exactly one follow-up message is
  enqueued, with a visibility delay of 30 seconds when the state is named
  \<^verbatim>\<open>stopping\<close>, \<^verbatim>\<open>stop\<close> or \<^verbatim>\<open>shutdown\<close> and of 5 seconds for every other state.
\<close>

theorem save_dispatch:
  assumes "save env cl cls self new require_etag w = (Returned None, self', w')"
  shows "\<exists>msgs. filter is_queue_update (trace w') = filter is_queue_update (trace w) @ msgs
       \<and> (getattr self ''state'' = PNone \<longrightarrow> msgs = [])
       \<and> (state_needs_work env (getattr self ''state'') = None \<longrightarrow> msgs = [])
       \<and> (\<forall>work. state_needs_work env (getattr self ''state'') = Some work
             \<and> getattr self ''state'' \<notin> set work \<longrightarrow> msgs = [])
       \<and> (\<forall>work. state_needs_work env (getattr self ''state'') = Some work
             \<and> getattr self ''state'' \<in> set work \<longrightarrow>
             (\<exists>pk rk. msgs =
                [QueueUpdate (cls_name cls) pk rk None
                   (Some (if state_name (getattr self ''state'') \<in> {''stopping'', ''stop'', ''shutdown''}
                          then 30 else 5))]))"
proof -
  from save_returned_none [OF assms] obtain r t w1 wq op where
    self': "self' = set_etag self t"
    and tr: "trace w1 = trace w @ [op]"
    and op: "op \<in> {InsertEntity (table_name cls) r, ReplaceEntity (table_name cls) r (getattr self ''etag''),
              InsertOrReplaceEntity (table_name cls) r}"
    and q: "queue_as_needed env cls self' w1 = (Returned (), wq)"
    and w': "w' = event_as_needed cls self' (telemetry_as_needed env cls self' wq)"
    by blast
  have st: "getattr self' ''state'' = getattr self ''state''"
    unfolding self' by (rule getattr_set_etag) simp
  have nq: "\<not> is_queue_update op" using op by auto
  have base: "filter is_queue_update (trace w1) = filter is_queue_update (trace w)"
    using nq by (simp add: tr)
  have fin: "filter is_queue_update (trace w') = filter is_queue_update (trace wq)"
    by (simp add: w' filter_queue_event_as_needed filter_queue_telemetry_as_needed)
  have none: "state_needs_work env PNone = None"
    by (simp add: state_needs_work_def)
  note qr = queue_as_needed_returned [OF q, unfolded st]
  show ?thesis
  proof (cases "state_needs_work env (getattr self ''state'')")
    case None
    with qr have "wq = w1" by simp
    with fin base None show ?thesis by simp
  next
    case (Some work)
    show ?thesis
    proof (cases "getattr self ''state'' \<in> set work")
      case False
      with qr Some have "wq = w1" by simp
      with fin base Some False none show ?thesis by auto
    next
      case True
      with qr Some obtain pk rk where
        "wq = emit (QueueUpdate (cls_name cls) pk rk None
                 (Some (if state_name (getattr self ''state'') \<in> {''stopping'', ''stop'', ''shutdown''}
                        then 30 else 5))) w1"
        by auto
      with fin base Some True none show ?thesis by auto
    qed
  qed
qed

theorem save_dispatch_witness:
  "(\<exists>pk rk. filter is_queue_update
        (trace (snd (snd (save example_env table_client Task (task_obj TaskState_stopping) True False
                            empty_world))))
       = [QueueUpdate ''Task'' pk rk None (Some 30)])
   \<and> (\<exists>pk rk. filter is_queue_update (trace saved_world) = [QueueUpdate ''Task'' pk rk None (Some 5)])
   \<and> filter is_queue_update
        (trace (snd (snd (save example_env table_client Task (task_obj TaskState_running) False False
                            empty_world)))) = []
   \<and> filter is_queue_update
        (trace (snd (snd (save example_env table_client Notes (notes_obj PNone) False False
                            empty_world)))) = []"
proof -
  have h1: "save example_env table_client Task (task_obj TaskState_stopping) True False empty_world
      = (Returned None,
         fst (snd (save example_env table_client Task (task_obj TaskState_stopping) True False empty_world)),
         snd (snd (save example_env table_client Task (task_obj TaskState_stopping) True False empty_world)))"
    by code_simp
  have h2: "save example_env table_client Task (task_obj TaskState_init) True False empty_world
      = (Returned None,
         fst (snd (save example_env table_client Task (task_obj TaskState_init) True False empty_world)),
         saved_world)"
    unfolding saved_world_def by code_simp
  have h3: "save example_env table_client Task (task_obj TaskState_running) False False empty_world
      = (Returned None,
         fst (snd (save example_env table_client Task (task_obj TaskState_running) False False empty_world)),
         snd (snd (save example_env table_client Task (task_obj TaskState_running) False False empty_world)))"
    by code_simp
  have h4: "save example_env table_client Notes (notes_obj PNone) False False empty_world
      = (Returned None,
         fst (snd (save example_env table_client Notes (notes_obj PNone) False False empty_world)),
         snd (snd (save example_env table_client Notes (notes_obj PNone) False False empty_world)))"
    by code_simp
  have s1: "state_needs_work example_env (getattr (task_obj TaskState_stopping) ''state'')
              = Some [PEnum TaskState_init, PEnum TaskState_stopping]"
    "getattr (task_obj TaskState_stopping) ''state'' = PEnum TaskState_stopping"
    "state_name (PEnum TaskState_stopping) = ''stopping''"
    by (simp_all add: state_needs_work_def getattr_def task_obj_def example_env_def
        TaskState_stopping_def state_name_def)
  have s2: "state_needs_work example_env (getattr (task_obj TaskState_init) ''state'')
              = Some [PEnum TaskState_init, PEnum TaskState_stopping]"
    "getattr (task_obj TaskState_init) ''state'' = PEnum TaskState_init"
    "state_name (PEnum TaskState_init) = ''init''"
    by (simp_all add: state_needs_work_def getattr_def task_obj_def example_env_def
        TaskState_init_def state_name_def)
  have s3: "state_needs_work example_env (getattr (task_obj TaskState_running) ''state'')
              = Some [PEnum TaskState_init, PEnum TaskState_stopping]"
    "getattr (task_obj TaskState_running) ''state'' = PEnum TaskState_running"
    "PEnum TaskState_running \<notin> set [PEnum TaskState_init, PEnum TaskState_stopping]"
    by (simp_all add: state_needs_work_def getattr_def task_obj_def example_env_def
        TaskState_running_def TaskState_init_def TaskState_stopping_def)
  have s4: "getattr (notes_obj PNone) ''state'' = PNone"
    by (simp add: getattr_def notes_obj_def)
  have e: "trace empty_world = []" "cls_name Task = ''Task''"
    by (simp_all add: empty_world_def Task_def)
  from save_dispatch [OF h1] s1 e have k1: "\<exists>pk rk. filter is_queue_update
        (trace (snd (snd (save example_env table_client Task (task_obj TaskState_stopping) True False
                            empty_world))))
       = [QueueUpdate ''Task'' pk rk None (Some 30)]"
    by auto
  from save_dispatch [OF h2] s2 e
  have k2: "\<exists>pk rk. filter is_queue_update (trace saved_world) = [QueueUpdate ''Task'' pk rk None (Some 5)]"
    by auto
  from save_dispatch [OF h3] s3 e have k3: "filter is_queue_update
        (trace (snd (snd (save example_env table_client Task (task_obj TaskState_running) False False
                            empty_world)))) = []"
    by auto
  from save_dispatch [OF h4] s4 e have k4: "filter is_queue_update
        (trace (snd (snd (save example_env table_client Notes (notes_obj PNone) False False
                            empty_world)))) = []"
    by auto
  from k1 k2 k3 k4 show ?thesis by blast
qed

subsection \<open>Deleting a record\<close>

text \<open>
  Claim C9, as stated, fails: for a record whose event projection is empty, deleting an
  absent row returns successfully but no dashboard event is emitted; the only call is
  the delete of the store.
\<close>

theorem delete_empty_projection_no_event:
  "delete table_client Notes (notes_obj PNone) empty_world =
     (Returned (), \<lparr>store = \<lparr>rows = [], clock = 0\<rparr>, trace = [DeleteEntity ''Notes'' ''n1'' ''n1'']\<rparr>)"
  by code_simp

text \<open>
  Claim C9, amended. For every record whose keys resolve, \<^verbatim>\<open>delete\<close> first emits the
  dashboard event, once if the event projection of the record is not empty and not at
  all if it is empty, and then issues the delete of the store; a not-found failure of
  the store is swallowed and \<^verbatim>\<open>delete\<close> returns, any other failure of the store is
  raised to the caller.
\<close>

theorem delete_event_then_store:
  assumes "get_keys cls self = Inr (partition_key, row_key)"
    and "resolve partition_key = Inr pk" and "resolve row_key = Inr rk"
    and "delete_entity cl (table_name cls) pk rk (store w) = (res, s')"
  shows "delete cl cls self w =
     (case res of
        Inl e \<Rightarrow> if e = AzureMissingResourceHttpError then Returned () else Raised e
      | Inr u \<Rightarrow> Returned (),
      \<lparr>store = s',
       trace = trace w
         @ (if event cls self = [] then [] else [AddEvent (table_name cls) (event cls self)])
         @ [DeleteEntity (table_name cls) pk rk]\<rparr>)"
  using assms
  by (auto simp: delete_def call_store_def event_as_needed_def emit_def Let_def split: sum.splits)

theorem delete_event_then_store_witness:
  "delete table_client Task (task_obj TaskState_init) empty_world =
     (Returned (),
      \<lparr>store = store empty_world,
       trace = [AddEvent ''Task'' [(''job_id'', PStr ''j1''), (''task_id'', PStr ''t1''), (''state'', PStr ''init'')],
                DeleteEntity ''Task'' ''j1'' ''t1'']\<rparr>)
   \<and> fst (delete broken_client Task (task_obj TaskState_init) empty_world) = Raised (AzureHttpError 500)"
proof -
  have k: "get_keys Task (task_obj TaskState_init) = Inr (PUuid ''j1'', PUuid ''t1'')"
    by code_simp
  have p: "resolve (PUuid ''j1'') = Inr ''j1''" "resolve (PUuid ''t1'') = Inr ''t1''"
    by simp_all
  have d1: "delete_entity table_client (table_name Task) ''j1'' ''t1'' (store empty_world)
      = (Inl AzureMissingResourceHttpError, store empty_world)"
    by code_simp
  have d2: "delete_entity broken_client (table_name Task) ''j1'' ''t1'' (store empty_world)
      = (Inl (AzureHttpError 500), store empty_world)"
    by code_simp
  have e: "event Task (task_obj TaskState_init) =
      [(''job_id'', PStr ''j1''), (''task_id'', PStr ''t1''), (''state'', PStr ''init'')]"
    by code_simp
  have n: "table_name Task = ''Task''" "trace empty_world = []"
    by (simp_all add: table_name_def Task_def empty_world_def)
  from delete_event_then_store [OF k p d1] e n
  have a: "delete table_client Task (task_obj TaskState_init) empty_world =
     (Returned (),
      \<lparr>store = store empty_world,
       trace = [AddEvent ''Task'' [(''job_id'', PStr ''j1''), (''task_id'', PStr ''t1''), (''state'', PStr ''init'')],
                DeleteEntity ''Task'' ''j1'' ''t1'']\<rparr>)"
    by simp
  from delete_event_then_store [OF k p d2]
  have b: "fst (delete broken_client Task (task_obj TaskState_init) empty_world) = Raised (AzureHttpError 500)"
    by simp
  from a b show ?thesis by blast
qed

subsection \<open>Looking a record up\<close>

text \<open>
  Claim C10. \<^verbatim>\<open>get\<close> treats every falsy row key as a missing one: with a row key that
  is \<^verbatim>\<open>None\<close>, 0 or the empty string, the lookup is made with the resolved partition
  key in the place of the row key, and the row key given is not resolved.
\<close>

theorem get_falsy_row_key:
  assumes "resolve PartitionKey = Inr pk" and "\<not> truthy RowKey"
  shows "get env cl cls PartitionKey RowKey w = get env cl cls PartitionKey PNone w
       \<and> trace (snd (get env cl cls PartitionKey RowKey w)) =
           trace w @ [GetEntity (table_name cls) pk pk]"
  using assms
  by (auto simp: get_def call_store_def split: sum.splits prod.splits)

theorem get_falsy_row_key_witness:
  "resolve (PUuid ''j1'') = Inr ''j1'' \<and> \<not> truthy (PInt 0) \<and> \<not> truthy (PStr [])
   \<and> trace (snd (get example_env table_client Task (PUuid ''j1'') (PInt 0) saved_world)) =
        trace saved_world @ [GetEntity ''Task'' ''j1'' ''j1'']
   \<and> trace (snd (get example_env table_client Task (PUuid ''j1'') (PStr []) saved_world)) =
        trace saved_world @ [GetEntity ''Task'' ''j1'' ''j1'']
   \<and> get example_env table_client Task (PUuid ''j1'') (PInt 0) saved_world =
        get example_env table_client Task (PUuid ''j1'') PNone saved_world"
proof -
  have p: "resolve (PUuid ''j1'') = Inr ''j1''" by simp
  have t0: "\<not> truthy (PInt 0)" and t1: "\<not> truthy (PStr [])" by simp_all
  have n: "table_name Task = ''Task''" by (simp add: table_name_def Task_def)
  note g0 = get_falsy_row_key [OF p t0, of example_env table_client Task saved_world, unfolded n]
  note g1 = get_falsy_row_key [OF p t1, of example_env table_client Task saved_world, unfolded n]
  from p t0 t1 conjunct2 [OF g0] conjunct2 [OF g1] conjunct1 [OF g0]
  show ?thesis by blast
qed

subsection \<open>The store keys of a saved row\<close>















subsection \<open>Round trip through the store\<close>

text \<open>
  A field annotated as a model comes back from the store as it was written: \<^verbatim>\<open>save\<close>
  writes the JSON text of the dictionary and \<^verbatim>\<open>load\<close> decodes it.
\<close>

lemma model_field_is_decoded:
  "save_row example_env Task (task_obj TaskState_init) =
     Inr [(''state'', PStr ''init''), (''note'', PStr ''first''), (''count'', PInt 3),
          (''config'', PStr (json_text (PDict [(''duration'', PInt 1)]))),
          (''PartitionKey'', PStr ''j1''), (''RowKey'', PStr ''t1'')]
   \<and> load_data example_env Task
       [(''state'', PStr ''init''), (''note'', PStr ''first''), (''count'', PInt 3),
        (''config'', PStr (json_text (PDict [(''duration'', PInt 1)]))),
        (''PartitionKey'', PStr ''j1''), (''RowKey'', PStr ''t1'')] =
     Inr [(''state'', PStr ''init''), (''note'', PStr ''first''), (''count'', PInt 3),
          (''config'', PDict [(''duration'', PInt 1)]),
          (''job_id'', PStr ''j1''), (''task_id'', PStr ''t1'')]"
  by code_simp

text \<open>
  Whatever the JSON encoder, the list of a \<^verbatim>\<open>List[str]\<close> field is written as JSON
  text by \<^verbatim>\<open>save\<close> and reaches \<^verbatim>\<open>parse_obj\<close> as that text: \<^verbatim>\<open>load\<close> decodes
  models and dictionaries only.
\<close>

lemma load_data_list_field_stays_text:
  "save_row env Notes (notes_obj PNone) =
     Inr [(''tags'', PStr (json_dumps env (PList [PStr ''a'']))),
          (''PartitionKey'', PStr ''n1''), (''RowKey'', PStr ''n1'')]
   \<and> load_data env Notes
       [(''tags'', PStr (json_dumps env (PList [PStr ''a'']))),
        (''PartitionKey'', PStr ''n1''), (''RowKey'', PStr ''n1'')] =
     Inr [(''tags'', PStr (json_dumps env (PList [PStr ''a'']))), (''name'', PStr ''n1'')]"
  by (simp add: save_row_def load_data_def Notes_def Notes_fields_def notes_obj_def decl_def raw_def
      blob_encode_def or_field_def field_given_def)

text \<open>
  Claim C2. Serializing a record by the save path and decoding the row by \<^verbatim>\<open>load\<close>
  is to give back a record equal to the original, field for field. The code does not
  do so for a record with a field of type \<^verbatim>\<open>List[str]\<close>: for the record with name
  \<^verbatim>\<open>n1\<close> and tags \<^verbatim>\<open>["a"]\<close>, \<^verbatim>\<open>save\<close> writes the tags as the JSON text of the list,
  \<^verbatim>\<open>load\<close> leaves this text undecoded, and the validation of the list field refuses
  it, so that \<^verbatim>\<open>load\<close> raises where the record should come back.
\<close>

theorem list_field_round_trip_fails:
  "save_row example_env Notes (notes_obj PNone) =
     Inr [(''tags'', PStr (''['' @ [CHR 0x22] @ ''a'' @ [CHR 0x22] @ '']'')),
          (''PartitionKey'', PStr ''n1''), (''RowKey'', PStr ''n1'')]
   \<and> load_data example_env Notes
       [(''tags'', PStr (''['' @ [CHR 0x22] @ ''a'' @ [CHR 0x22] @ '']'')),
        (''PartitionKey'', PStr ''n1''), (''RowKey'', PStr ''n1'')] =
     Inr [(''tags'', PStr (''['' @ [CHR 0x22] @ ''a'' @ [CHR 0x22] @ '']'')), (''name'', PStr ''n1'')]
   \<and> load example_env Notes
       [(''tags'', PStr (''['' @ [CHR 0x22] @ ''a'' @ [CHR 0x22] @ '']'')),
        (''PartitionKey'', PStr ''n1''), (''RowKey'', PStr ''n1'')] = Inl ValidationError"
  by code_simp

end
